theory Spec2Isabelle
  imports Complex_Main
begin

section \<open>Minecraft screensaver: the frame loop of \<open>main\<close>\<close>

text \<open>
  A shallow embedding of \<^verbatim>\<open>Minecrft_Screensaver.py\<close>. Python integers are \<open>int\<close>.
  A Python float is a real number, and the loop is first written with the arithmetic
  of the reals; the properties proved of it are facts of order and of structure (how
  many elements a list has, which sign a quantity has, which way a position moves).
  Where a property is about the very number the program stores or draws with, the
  same lines are written a second time with every operation rounded to binary64
  (\<open>advance_fp\<close>, \<open>particle_alpha_fp\<close>, below).
  Everything the program takes from outside
  (the display size, the clock, the event queue, the random generator, faults of the
  windowing library) is an explicit argument, so every function below is a pure
  function of the program state and of what the environment delivered in that frame.
\<close>

subsection \<open>Configuration (lines 20-37)\<close>

definition FPS :: nat where
  "FPS = 60"

definition BLOCK_FALL_RATE :: "real \<times> real" where
  "BLOCK_FALL_RATE = (150, 400)"

definition BLOCK_SPAWN_RATE :: real where
  "BLOCK_SPAWN_RATE = 8 / 100"

definition BLOCK_SIZE_PIXELS :: int where
  "BLOCK_SIZE_PIXELS = 10"

definition CLOUD_SPEED :: real where
  "CLOUD_SPEED = 10"

definition CLOUD_COUNT :: nat where
  "CLOUD_COUNT = 5"

definition BOB_AMPLITUDE :: real where
  "BOB_AMPLITUDE = 8"

definition BOB_SPEED :: real where
  "BOB_SPEED = 8 / 10"

type_synonym rgb = "int \<times> int \<times> int"

definition GRASS_TOP :: rgb where "GRASS_TOP = (106, 190, 48)"
definition DIRT :: rgb where "DIRT = (121, 85, 58)"
definition GRASS_EDGE :: rgb where "GRASS_EDGE = (86, 160, 36)"
definition STONE :: rgb where "STONE = (100, 100, 100)"
definition WOOD :: rgb where "WOOD = (93, 57, 24)"

subsection \<open>Data (lines 41-49, 131)\<close>

text \<open>
  The dataclass \<open>FallingBlock\<close>. The fields \<open>x\<close>, \<open>y\<close> and \<open>size\<close> carry the
  prefix \<open>blk_\<close> (\<open>size\<close> is a constant of HOL, \<open>x\<close> and \<open>y\<close> are wanted as variables).
\<close>

record FallingBlock =
  blk_x :: real
  blk_y :: real
  blk_size :: int
  vy :: real
  color :: rgb
  life :: real
  max_life :: real

text \<open>
  A cloud is the Python list \<open>[x, y, surf, speed]\<close>. Of the sprite only its width
  and height are kept: the loop reads nothing else of it (\<open>get_width()\<close>).
\<close>

record cloud =
  cloud_x :: real
  cloud_y :: real
  surf_w :: int
  surf_h :: int
  cloud_speed :: real

datatype event =
    QUIT
  | KEYDOWN
  | MOUSEBUTTONDOWN
  | MOUSEMOTION "int \<times> int"
  | OTHER_EVENT

datatype error = ZeroDivisionError | PygameError

text \<open>What \<open>main\<close> fixes before the loop: display size and the start readings.\<close>

record env =
  screen_w :: int
  screen_h :: int
  start_mouse_pos :: "int \<times> int"
  start_ticks :: nat

text \<open>The local variables of \<open>main\<close> that the loop reads and writes.\<close>

record state =
  falling :: "FallingBlock list"
  spawn_accum :: real
  spawn_interval :: real
  clouds :: "cloud list"
  running :: bool

subsection \<open>The random generator as an input\<close>

text \<open>
  Python's \<open>random.uniform(a, b)\<close> is \<open>a + (b - a) * random()\<close> and
  \<open>random.gauss(mu, sigma)\<close> is \<open>mu + z * sigma\<close> for a standard normal \<open>z\<close>;
  \<open>random.choice(seq)\<close> is \<open>seq[k]\<close> for a drawn index. The raw draws
  (\<open>random()\<close> in \<open>[0, 1)\<close>, \<open>z\<close>, \<open>k\<close>) are inputs of the frame.
\<close>

definition uniform :: "real \<Rightarrow> real \<Rightarrow> real \<Rightarrow> real" where
  "uniform a b r = a + (b - a) * r"

definition gauss :: "real \<Rightarrow> real \<Rightarrow> real \<Rightarrow> real" where
  "gauss mu sigma z = mu + z * sigma"

definition choice :: "'a list \<Rightarrow> nat \<Rightarrow> 'a" where
  "choice xs k = xs ! (k mod length xs)"

definition unit_draw :: "real \<Rightarrow> bool" where
  "unit_draw r \<longleftrightarrow> 0 \<le> r \<and> r < 1"

text \<open>The draws of one spawn (lines 154-161), in the order of the source.\<close>

record spawn_rnd =
  z_interval :: real
  k_size :: nat
  r_x :: real
  r_y :: real
  r_speed :: real
  k_color :: nat
  r_life :: real

text \<open>The draws of one cloud wrap (lines 172-174).\<close>

record wrap_rnd =
  r_offset :: real
  r_cloud_y :: real
  r_cloud_speed :: real

text \<open>The draws for one cloud at startup (lines 125-130).\<close>

record cloud_rnd =
  n_w :: int
  r_init_x :: real
  r_init_y :: real
  r_init_speed :: real

text \<open>
  What one iteration of the loop receives: the milliseconds \<open>clock.tick(FPS)\<close>
  returns (a count of milliseconds since the previous call, hence a \<open>nat\<close>), the events
  of \<open>pygame.event.get()\<close>, the random draws, the reading of
  \<open>pygame.time.get_ticks()\<close>, and whether a call into the windowing library raised
  during the iteration.
\<close>

record frame_input =
  tick_ms :: nat
  events :: "event list"
  spawn_draw :: spawn_rnd
  wrap_draw :: "nat \<Rightarrow> wrap_rnd"
  ticks :: nat
  fault :: bool

definition wf_spawn :: "spawn_rnd \<Rightarrow> bool" where
  "wf_spawn d \<longleftrightarrow>
     unit_draw (r_x d) \<and> unit_draw (r_y d) \<and> unit_draw (r_speed d) \<and> unit_draw (r_life d)"

definition wf_wrap :: "wrap_rnd \<Rightarrow> bool" where
  "wf_wrap d \<longleftrightarrow>
     unit_draw (r_offset d) \<and> unit_draw (r_cloud_y d) \<and> unit_draw (r_cloud_speed d)"

definition wf_input :: "frame_input \<Rightarrow> bool" where
  "wf_input i \<longleftrightarrow>
     wf_spawn (spawn_draw i) \<and> list_all (\<lambda>k. wf_wrap (wrap_draw i k)) [0..<CLOUD_COUNT]"

definition wf_cloud_rnd :: "env \<Rightarrow> cloud_rnd \<Rightarrow> bool" where
  "wf_cloud_rnd e d \<longleftrightarrow>
     screen_w e div 6 \<le> n_w d \<and> n_w d \<le> screen_w e div 3 \<and>
     unit_draw (r_init_x d) \<and> unit_draw (r_init_y d) \<and> unit_draw (r_init_speed d)"

definition wf_init :: "env \<Rightarrow> (nat \<Rightarrow> cloud_rnd) \<Rightarrow> bool" where
  "wf_init e ds \<longleftrightarrow> list_all (\<lambda>k. wf_cloud_rnd e (ds k)) [0..<CLOUD_COUNT]"

subsection \<open>The block sprite (lines 60-74, 105-110)\<close>

definition generate_grass_block_map :: "rgb option list list" where
  "generate_grass_block_map =
    (let g = Some (86, 160, 36); t = Some (106, 190, 48); d = Some (121, 85, 58);
         s = Some (100, 100, 100); w = Some (93, 57, 24); n = None
     in [[n, n, g, t, t, t, t, t, g, n, n],
         [n, g, t, t, t, t, t, t, t, g, n],
         [g, t, t, t, t, t, t, t, t, t, g],
         [g, t, t, t, t, t, t, t, t, g, g],
         [d, d, d, d, d, d, d, d, d, d, d],
         [d, d, d, d, d, d, d, d, d, d, d],
         [s, s, s, s, s, s, s, s, s, s, s],
         [s, s, s, s, s, s, s, s, s, s, s],
         [n, w, w, w, w, w, w, w, w, w, n],
         [n, n, w, w, w, w, w, w, w, n, n],
         [n, n, n, w, w, w, w, n, n, n, n]])"

definition map_w :: int where
  "map_w = int (length (hd generate_grass_block_map))"

definition pixel_size :: "env \<Rightarrow> int" where
  "pixel_size e = max 2 (min (screen_w e div 5) 450 div map_w)"

subsection \<open>Startup (lines 119-136)\<close>

definition make_cloud :: "env \<Rightarrow> cloud_rnd \<Rightarrow> cloud" where
  "make_cloud e d =
     (let w = n_w d; h = max 40 (w div 6)
      in \<lparr> cloud_x = uniform (- real_of_int w) (real_of_int (screen_w e)) (r_init_x d),
           cloud_y = uniform 20 (real_of_int (screen_h e) * (35 / 100)) (r_init_y d),
           surf_w = w,
           surf_h = h,
           cloud_speed = uniform (CLOUD_SPEED * (1 / 2)) (CLOUD_SPEED * (3 / 2)) (r_init_speed d) \<rparr>)"

definition init_state :: "env \<Rightarrow> (nat \<Rightarrow> cloud_rnd) \<Rightarrow> state" where
  "init_state e ds =
     \<lparr> falling = [],
       spawn_accum = 0,
       spawn_interval = BLOCK_SPAWN_RATE,
       clouds = map (\<lambda>k. make_cloud e (ds k)) [0..<CLOUD_COUNT],
       running = True \<rparr>"

subsection \<open>Input monitor (lines 142-150)\<close>

fun handle_event :: "int \<times> int \<Rightarrow> bool \<Rightarrow> event \<Rightarrow> bool" where
  "handle_event start r QUIT = False"
| "handle_event start r KEYDOWN = False"
| "handle_event start r MOUSEBUTTONDOWN = False"
| "handle_event start r (MOUSEMOTION pos) = (if pos \<noteq> start then False else r)"
| "handle_event start r OTHER_EVENT = r"

definition poll_events :: "int \<times> int \<Rightarrow> bool \<Rightarrow> event list \<Rightarrow> bool" where
  "poll_events start r evs = foldl (handle_event start) r evs"

subsection \<open>Particle system (lines 152-167)\<close>

definition new_block :: "env \<Rightarrow> spawn_rnd \<Rightarrow> FallingBlock" where
  "new_block e d =
     (let sz = choice [1, 1, 1, 2 :: int] (k_size d);
          px_size = pixel_size e * sz;
          x = uniform 0 (real_of_int (screen_w e - px_size)) (r_x d);
          y = - real_of_int px_size - uniform 0 (real_of_int (screen_h e) * (1 / 10)) (r_y d);
          speed = uniform (fst BLOCK_FALL_RATE) (snd BLOCK_FALL_RATE) (r_speed d);
          col = choice [GRASS_TOP, GRASS_EDGE, DIRT, STONE, WOOD] (k_color d);
          lf = 25 / 10 + r_life d * 2
      in \<lparr> blk_x = x, blk_y = y, blk_size = px_size, vy = speed, color = col,
           life = lf, max_life = lf \<rparr>)"

definition spawn_step :: "env \<Rightarrow> spawn_rnd \<Rightarrow> state \<Rightarrow> state" where
  "spawn_step e d st =
     (if spawn_accum st \<ge> spawn_interval st
      then st \<lparr> spawn_accum := spawn_accum st - spawn_interval st,
                spawn_interval := max (2 / 100) (gauss BLOCK_SPAWN_RATE (BLOCK_SPAWN_RATE * (4 / 10)) (z_interval d)),
                falling := falling st @ [new_block e d] \<rparr>
      else st)"

definition advance :: "real \<Rightarrow> FallingBlock \<Rightarrow> FallingBlock" where
  "advance dt b = b \<lparr> blk_y := blk_y b + vy b * dt, life := life b - dt \<rparr>"

definition keep :: "env \<Rightarrow> FallingBlock \<Rightarrow> bool" where
  "keep e b \<longleftrightarrow> life b > 0 \<and> blk_y b < real_of_int (screen_h e + 200)"

definition update_falling :: "env \<Rightarrow> real \<Rightarrow> FallingBlock list \<Rightarrow> FallingBlock list" where
  "update_falling e dt bs = filter (keep e) (map (advance dt) bs)"

subsection \<open>Cloud system (lines 169-174)\<close>

definition update_cloud :: "env \<Rightarrow> real \<Rightarrow> wrap_rnd \<Rightarrow> cloud \<Rightarrow> cloud" where
  "update_cloud e dt d c =
     (let x1 = cloud_x c + cloud_speed c * dt
      in if x1 > real_of_int (screen_w e + surf_w c)
         then c \<lparr> cloud_x := - real_of_int (surf_w c)
                              - uniform 0 (real_of_int (screen_w e) * (2 / 10)) (r_offset d),
                  cloud_y := uniform 20 (real_of_int (screen_h e) * (35 / 100)) (r_cloud_y d),
                  cloud_speed := uniform (CLOUD_SPEED * (1 / 2)) (CLOUD_SPEED * (3 / 2)) (r_cloud_speed d) \<rparr>
         else c \<lparr> cloud_x := x1 \<rparr>)"

definition update_clouds :: "env \<Rightarrow> real \<Rightarrow> (nat \<Rightarrow> wrap_rnd) \<Rightarrow> cloud list \<Rightarrow> cloud list" where
  "update_clouds e dt ds cs = map (\<lambda>(k, c). update_cloud e dt (ds k) c) (enumerate 0 cs)"

subsection \<open>Renderer (lines 176-189)\<close>

text \<open>Lines 177-178: the time since the start in seconds, and the bob offset at a time.\<close>

definition elapsed :: "env \<Rightarrow> frame_input \<Rightarrow> real" where
  "elapsed e i = real_of_int (int (ticks i) - int (start_ticks e)) / 1000"

definition bob :: "real \<Rightarrow> real" where
  "bob t = sin (2 * pi * BOB_SPEED * t) * BOB_AMPLITUDE"

text \<open>Python's \<open>int()\<close> on a float truncates towards zero.\<close>

definition py_int :: "real \<Rightarrow> int" where
  "py_int v = (if 0 \<le> v then \<lfloor>v\<rfloor> else \<lceil>v\<rceil>)"

text \<open>Line 186. Python's \<open>/\<close> raises \<open>ZeroDivisionError\<close> on a zero divisor.\<close>

definition particle_alpha :: "FallingBlock \<Rightarrow> error + int" where
  "particle_alpha b =
     (if max_life b = 0 then Inl ZeroDivisionError
      else Inr (max 0 (min 255 (py_int (255 * (life b / max_life b))))))"

fun render_falling :: "FallingBlock list \<Rightarrow> error + int list" where
  "render_falling [] = Inr []"
| "render_falling (b # bs) =
     (case particle_alpha b of
        Inl err \<Rightarrow> Inl err
      | Inr a \<Rightarrow> (case render_falling bs of Inl err \<Rightarrow> Inl err | Inr as \<Rightarrow> Inr (a # as)))"

subsection \<open>One iteration of the loop, and the loop (lines 138-208)\<close>

definition frame_dt :: "frame_input \<Rightarrow> real" where
  "frame_dt i = real (tick_ms i) / 1000"

text \<open>The updates of one iteration (lines 139-174): the state that the renderer sees.\<close>

definition update_state :: "env \<Rightarrow> state \<Rightarrow> frame_input \<Rightarrow> state" where
  "update_state e st i =
     (let dt = frame_dt i;
          st1 = st \<lparr> spawn_accum := spawn_accum st + dt \<rparr>;
          st2 = st1 \<lparr> running := poll_events (start_mouse_pos e) (running st1) (events i) \<rparr>;
          st3 = spawn_step e (spawn_draw i) st2;
          st4 = st3 \<lparr> falling := update_falling e dt (falling st3) \<rparr>
      in st4 \<lparr> clouds := update_clouds e dt (wrap_draw i) (clouds st4) \<rparr>)"

text \<open>
  One iteration: it raises when a library call raises or when the renderer divides by
  zero; otherwise the frame is presented and the updated state goes to the loop head.
  An iteration that raises leaves the loop, so the state it had reached is not kept.
  The rest of the rendering (clouds, block sprite, shadow, sparkle, caption) writes to
  the display only: no variable of the loop depends on it, and its library calls are
  covered by \<open>fault\<close>.
\<close>

definition frame :: "env \<Rightarrow> state \<Rightarrow> frame_input \<Rightarrow> error + state" where
  "frame e st i =
     (if fault i then Inl PygameError
      else
        let st' = update_state e st i
        in case render_falling (falling st') of
             Inl err \<Rightarrow> Inl err
           | Inr alphas \<Rightarrow> Inr st')"

text \<open>
  \<open>run_frames\<close> runs \<open>while running: ...\<close> on the frames given: it stops when
  \<open>running\<close> is false at the loop head, when an iteration raises, or when the given
  frames are used up. \<open>main_loop\<close> is the loop as a computation that may not return:
  \<open>None\<close> when the frames given end with \<open>running\<close> still true.
\<close>

fun run_frames :: "env \<Rightarrow> state \<Rightarrow> frame_input list \<Rightarrow> error + state" where
  "run_frames e st [] = Inr st"
| "run_frames e st (i # is) =
     (if running st
      then (case frame e st i of Inl err \<Rightarrow> Inl err | Inr st' \<Rightarrow> run_frames e st' is)
      else Inr st)"

definition main_loop :: "env \<Rightarrow> state \<Rightarrow> frame_input list \<Rightarrow> (error + state) option" where
  "main_loop e st is =
     (case run_frames e st is of
        Inl err \<Rightarrow> Some (Inl err)
      | Inr st' \<Rightarrow> if running st' then None else Some (Inr st'))"

subsection \<open>Cursor handling around the loop (lines 96-103, 136-137, 210-218)\<close>

record platform =
  cursor_visible :: bool
  input_grab :: bool

text \<open>
  Whether each call of the windowing library that \<open>main\<close> guards with
  \<open>try ... except Exception: pass\<close> returns normally: \<open>set_grab(True)\<close> on line 100,
  \<open>set_visible(True)\<close> on line 213 and \<open>set_grab(False)\<close> on line 214. A call that
  raises leaves the flag as it was. In the \<open>finally\<close> block both calls are in one
  \<open>try\<close>, so a raise of the first skips the second. Line 98, \<open>set_visible(False)\<close>, is
  not guarded: if it raises, \<open>main\<close> ends before the loop is entered.
\<close>

record platform_calls =
  grab_on_ok :: bool
  show_ok :: bool
  grab_off_ok :: bool

definition hide_and_grab :: "platform_calls \<Rightarrow> platform \<Rightarrow> platform" where
  "hide_and_grab pc p =
     (let p1 = p \<lparr> cursor_visible := False \<rparr>
      in if grab_on_ok pc then p1 \<lparr> input_grab := True \<rparr> else p1)"

definition restore :: "platform_calls \<Rightarrow> platform \<Rightarrow> platform" where
  "restore pc p =
     (if show_ok pc
      then (let p1 = p \<lparr> cursor_visible := True \<rparr>
            in if grab_off_ok pc then p1 \<lparr> input_grab := False \<rparr> else p1)
      else p)"

text \<open>
  \<open>main\<close> from the hiding of the cursor to the end of the \<open>finally\<close> block: the
  result is how the loop ended and the platform flags when \<open>pygame.quit()\<close> is
  reached; \<open>None\<close> when the loop does not return on the frames given.
\<close>

definition main :: "platform_calls \<Rightarrow> platform \<Rightarrow> env \<Rightarrow> (nat \<Rightarrow> cloud_rnd) \<Rightarrow> frame_input list
                    \<Rightarrow> ((error + state) \<times> platform) option" where
  "main pc p e ds is =
     (let p1 = hide_and_grab pc p
      in case main_loop e (init_state e ds) is of
           None \<Rightarrow> None
         | Some r \<Rightarrow> Some (r, restore pc p1))"

subsection \<open>Binary64 arithmetic (lines 139, 165-166, 186)\<close>

text \<open>
  A Python float is an IEEE 754 binary64 number and every operation on floats returns
  the exact result rounded to the nearest such number, ties to the even significand.
  \<open>fl\<close> is that rounding: a number of magnitude in \<open>[2^k, 2^(k+1))\<close> is rounded to a
  multiple of \<open>2^(k-52)\<close>, with \<open>k\<close> not below -1022 (the subnormal numbers). Magnitudes
  of \<open>2^1024\<close> and more, which Python turns into \<open>inf\<close>, are not modelled: lifetimes are
  below 4.5 and alphas below 256.
\<close>

definition rne :: "real \<Rightarrow> int" where
  "rne v = (let f = \<lfloor>v\<rfloor>; d = v - real_of_int f
            in if d < 1 / 2 then f else if 1 / 2 < d then f + 1 else if even f then f else f + 1)"

definition expo :: "real \<Rightarrow> int" where
  "expo v = max (- 1022) \<lfloor>log 2 \<bar>v\<bar>\<rfloor>"

definition fl :: "real \<Rightarrow> real" where
  "fl v = (if v = 0 then 0
           else real_of_int (rne (v / 2 powi (expo v - 52))) * 2 powi (expo v - 52))"

text \<open>
  Line 139: \<open>dt = clock.tick(FPS) / 1000.0\<close>, an integer divided by a float.
\<close>

definition frame_dt_fp :: "frame_input \<Rightarrow> real" where
  "frame_dt_fp i = fl (real (tick_ms i) / 1000)"

text \<open>
  Lines 164-167 on floats: \<open>b.y += b.vy * dt\<close> rounds the product and the sum,
  \<open>b.life -= dt\<close> rounds the difference; the comparisons of the filter are exact.
\<close>

definition advance_fp :: "real \<Rightarrow> FallingBlock \<Rightarrow> FallingBlock" where
  "advance_fp dt b = b \<lparr> blk_y := fl (blk_y b + fl (vy b * dt)), life := fl (life b - dt) \<rparr>"

definition update_falling_fp :: "env \<Rightarrow> real \<Rightarrow> FallingBlock list \<Rightarrow> FallingBlock list" where
  "update_falling_fp e dt bs = filter (keep e) (map (advance_fp dt) bs)"

text \<open>
  Line 186 on floats: the quotient is rounded, then the product with 255, then
  \<open>int()\<close> truncates.
\<close>

definition particle_alpha_fp :: "FallingBlock \<Rightarrow> error + int" where
  "particle_alpha_fp b =
     (if max_life b = 0 then Inl ZeroDivisionError
      else Inr (max 0 (min 255 (py_int (fl (255 * fl (life b / max_life b)))))))"

subsection \<open>Predicates of the proofs\<close>

text \<open>
  What holds of every block in the list at the loop head (\<open>active_ok\<close>) and of every
  block between its creation and the filter (\<open>block_ok\<close>); the block that the spawn
  of one frame appends (\<open>spawned\<close>); what holds of the clouds (\<open>clouds_ok\<close>).
\<close>

definition block_ok :: "FallingBlock \<Rightarrow> bool" where
  "block_ok b \<longleftrightarrow> 150 \<le> vy b \<and> vy b < 400 \<and> 5 / 2 \<le> max_life b \<and> max_life b < 9 / 2 \<and>
     life b \<le> max_life b"

definition active_ok :: "FallingBlock \<Rightarrow> bool" where
  "active_ok b \<longleftrightarrow> block_ok b \<and> 0 < life b"

definition spawned :: "env \<Rightarrow> state \<Rightarrow> frame_input \<Rightarrow> FallingBlock list" where
  "spawned e st i =
     (if spawn_interval st \<le> spawn_accum st + frame_dt i then [new_block e (spawn_draw i)] else [])"

definition clouds_ok :: "state \<Rightarrow> bool" where
  "clouds_ok st \<longleftrightarrow> length (clouds st) = CLOUD_COUNT \<and> list_all (\<lambda>c. 0 < surf_w c) (clouds st)"

subsection \<open>A concrete run\<close>

text \<open>
  A 1920 by 1080 display, five clouds of width 400, and frames of 100 ms (one block is
  spawned in the first), of 3 s, of 200 s (the clouds wrap), with mouse and key events,
  and with a fault. \<open>cooled_block\<close> is the block of the run after 1.6 s, its lifetime the
  float \<open>4.0 - 1.6\<close>; \<open>short_block\<close> is a block drawn with the shortest lifetime.
\<close>

definition sample_env :: env where
  "sample_env = \<lparr> screen_w = 1920, screen_h = 1080, start_mouse_pos = (100, 100), start_ticks = 0 \<rparr>"

definition sample_cloud_rnd :: "nat \<Rightarrow> cloud_rnd" where
  "sample_cloud_rnd k = \<lparr> n_w = 400, r_init_x = 1 / 2, r_init_y = 1 / 2, r_init_speed = 1 / 2 \<rparr>"

definition sample_spawn :: spawn_rnd where
  "sample_spawn = \<lparr> z_interval = 0, k_size = 0, r_x = 1 / 2, r_y = 0, r_speed = 1 / 5,
                     k_color = 0, r_life = 3 / 4 \<rparr>"

definition sample_wrap :: "nat \<Rightarrow> wrap_rnd" where
  "sample_wrap k = \<lparr> r_offset = 1 / 2, r_cloud_y = 1 / 2, r_cloud_speed = 1 / 2 \<rparr>"

definition sample_frame :: frame_input where
  "sample_frame = \<lparr> tick_ms = 100, events = [], spawn_draw = sample_spawn,
                     wrap_draw = sample_wrap, ticks = 100, fault = False \<rparr>"

definition fresh_block :: FallingBlock where
  "fresh_block = \<lparr> blk_x = 943, blk_y = - 34, blk_size = 34, vy = 200, color = GRASS_TOP,
                    life = 4, max_life = 4 \<rparr>"

definition aged_block :: FallingBlock where
  "aged_block = \<lparr> blk_x = 943, blk_y = - 14, blk_size = 34, vy = 200, color = GRASS_TOP,
                   life = 39 / 10, max_life = 4 \<rparr>"

definition faded_block :: FallingBlock where
  "faded_block = \<lparr> blk_x = 943, blk_y = 566, blk_size = 34, vy = 200, color = GRASS_TOP,
                    life = 1, max_life = 4 \<rparr>"

definition sample_state :: state where
  "sample_state = init_state sample_env sample_cloud_rnd"

definition slow_frame :: frame_input where
  "slow_frame = sample_frame \<lparr> tick_ms := 3000 \<rparr>"

definition move_frame :: frame_input where
  "move_frame = sample_frame \<lparr> events := [MOUSEMOTION (100, 100), MOUSEMOTION (101, 100)] \<rparr>"

definition still_frame :: frame_input where
  "still_frame = sample_frame \<lparr> events := [MOUSEMOTION (100, 100)] \<rparr>"

definition key_frame :: frame_input where
  "key_frame = sample_frame \<lparr> events := [KEYDOWN] \<rparr>"

definition fault_frame :: frame_input where
  "fault_frame = sample_frame \<lparr> fault := True \<rparr>"

definition wrap_frame :: frame_input where
  "wrap_frame = sample_frame \<lparr> tick_ms := 200000 \<rparr>"

definition stopped_state :: state where
  "stopped_state = sample_state \<lparr> running := False \<rparr>"

definition sample_calls :: platform_calls where
  "sample_calls = \<lparr> grab_on_ok = True, show_ok = True, grab_off_ok = True \<rparr>"

definition no_grab_calls :: platform_calls where
  "no_grab_calls = \<lparr> grab_on_ok = False, show_ok = True, grab_off_ok = False \<rparr>"

definition sample_platform :: platform where
  "sample_platform = \<lparr> cursor_visible = True, input_grab = False \<rparr>"

definition sample_cloud :: cloud where
  "sample_cloud = \<lparr> cloud_x = 760, cloud_y = 199, surf_w = 400, surf_h = 66, cloud_speed = 10 \<rparr>"

definition cooled_block :: FallingBlock where
  "cooled_block = \<lparr> blk_x = 943, blk_y = 286, blk_size = 34, vy = 200, color = GRASS_TOP,
                     life = 5404319552844595 / 2251799813685248, max_life = 4 \<rparr>"

definition short_block :: FallingBlock where
  "short_block = \<lparr> blk_x = 943, blk_y = - 34, blk_size = 34, vy = 200, color = GRASS_TOP,
                    life = 5 / 2, max_life = 5 / 2 \<rparr>"

definition no_show_calls :: platform_calls where
  "no_show_calls = \<lparr> grab_on_ok = True, show_ok = False, grab_off_ok = True \<rparr>"

section \<open>Auxiliary facts\<close>

lemma handle_event_False: "handle_event s False ev = False"
  by (cases ev) auto

lemma handle_event_conj: "handle_event s r ev = (r \<and> handle_event s True ev)"
  by (cases ev) auto

lemma poll_events_False: "poll_events s False evs = False"
  unfolding poll_events_def by (induction evs) (auto simp: handle_event_False)

lemma poll_events_Cons: "poll_events s r (ev # evs) = poll_events s (handle_event s r ev) evs"
  by (simp add: poll_events_def)

lemma poll_events_trigger:
  "ev \<in> set evs \<Longrightarrow> handle_event s True ev = False \<Longrightarrow> poll_events s r evs = False"
proof (induction evs arbitrary: r)
  case Nil
  then show ?case by simp
next
  case (Cons a evs)
  show ?case
  proof (cases "a = ev")
    case True
    with Cons.prems have "handle_event s r a = False"
      using handle_event_conj [of s r a] by simp
    then show ?thesis
      by (simp add: poll_events_Cons poll_events_False)
  next
    case False
    with Cons show ?thesis
      by (simp add: poll_events_Cons)
  qed
qed

lemma poll_events_ignored:
  "\<forall>ev \<in> set evs. ev = MOUSEMOTION s \<or> ev = OTHER_EVENT \<Longrightarrow> poll_events s r evs = r"
  by (induction evs arbitrary: r) (auto simp: poll_events_Cons poll_events_def)

lemma running_spawn_step: "running (spawn_step e d st) = running st"
  by (simp add: spawn_step_def)

lemma clouds_spawn_step: "clouds (spawn_step e d st) = clouds st"
  by (simp add: spawn_step_def)

lemma running_update_state:
  "running (update_state e st i) = poll_events (start_mouse_pos e) (running st) (events i)"
  by (simp add: update_state_def Let_def running_spawn_step)

lemma clouds_update_state:
  "clouds (update_state e st i) = update_clouds e (frame_dt i) (wrap_draw i) (clouds st)"
  by (simp add: update_state_def Let_def clouds_spawn_step)

lemma falling_update_state:
  "falling (update_state e st i) =
     update_falling e (frame_dt i) (falling st @ spawned e st i)"
  by (simp add: update_state_def Let_def spawn_step_def spawned_def)

lemma spawn_interval_update_state:
  "spawn_interval (update_state e st i) =
     (if spawn_interval st \<le> spawn_accum st + frame_dt i
      then max (2 / 100) (gauss BLOCK_SPAWN_RATE (BLOCK_SPAWN_RATE * (4 / 10)) (z_interval (spawn_draw i)))
      else spawn_interval st)"
  by (simp add: update_state_def Let_def spawn_step_def)

lemma frame_Inr: "frame e st i = Inr st' \<Longrightarrow> st' = update_state e st i \<and> \<not> fault i"
  by (auto simp: frame_def Let_def split: if_splits sum.splits)

lemma run_frames_invariant:
  assumes step: "\<And>s i. P s \<Longrightarrow> Q i \<Longrightarrow> P (update_state e s i)"
  shows "P st \<Longrightarrow> list_all Q is \<Longrightarrow> run_frames e st is = Inr st' \<Longrightarrow> P st'"
proof (induction "is" arbitrary: st)
  case Nil
  then show ?case by simp
next
  case (Cons i "is")
  show ?case
  proof (cases "running st")
    case False
    with Cons.prems show ?thesis by simp
  next
    case True
    with Cons.prems obtain s1 where s1: "frame e st i = Inr s1" and rest: "run_frames e s1 is = Inr st'"
      by (auto split: sum.splits)
    from s1 have "s1 = update_state e st i" by (simp add: frame_Inr)
    with step Cons.prems have "P s1" by simp
    with Cons.IH rest Cons.prems show ?thesis by simp
  qed
qed

lemma frame_dt_nonneg: "0 \<le> frame_dt i"
  by (simp add: frame_dt_def)

lemma uniform_bounds: "a \<le> b \<Longrightarrow> unit_draw r \<Longrightarrow> a \<le> uniform a b r \<and> uniform a b r \<le> b"
proof -
  assume ab: "a \<le> b" and r: "unit_draw r"
  then have "0 \<le> (b - a) * r" by (simp add: unit_draw_def)
  moreover from ab r have "(b - a) * r \<le> (b - a) * 1"
    by (intro mult_left_mono) (simp_all add: unit_draw_def)
  ultimately show ?thesis by (simp add: uniform_def)
qed

lemma uniform_less: "a < b \<Longrightarrow> unit_draw r \<Longrightarrow> uniform a b r < b"
proof -
  assume ab: "a < b" and r: "unit_draw r"
  then have "(b - a) * r < (b - a) * 1"
    by (intro mult_strict_left_mono) (simp_all add: unit_draw_def)
  then show ?thesis by (simp add: uniform_def)
qed

lemma new_block_ok: "wf_spawn d \<Longrightarrow> block_ok (new_block e d)"
  using uniform_bounds [of 150 400 "r_speed d"] uniform_less [of 150 400 "r_speed d"]
  by (simp add: new_block_def Let_def block_ok_def wf_spawn_def BLOCK_FALL_RATE_def unit_draw_def)

lemma advance_ok: "0 \<le> dt \<Longrightarrow> block_ok b \<Longrightarrow> block_ok (advance dt b)"
  by (simp add: advance_def block_ok_def)

lemma update_falling_ok:
  "0 \<le> dt \<Longrightarrow> list_all block_ok bs \<Longrightarrow> list_all active_ok (update_falling e dt bs)"
  by (induction bs) (auto simp: update_falling_def active_ok_def advance_ok keep_def)

lemma active_ok_update_state:
  "list_all active_ok (falling st) \<Longrightarrow> wf_input i \<Longrightarrow> list_all active_ok (falling (update_state e st i))"
proof -
  assume a: "list_all active_ok (falling st)" and w: "wf_input i"
  then have "list_all block_ok (falling st @ spawned e st i)"
    by (auto simp: spawned_def list_all_iff active_ok_def new_block_ok wf_input_def)
  then show ?thesis
    by (simp add: falling_update_state update_falling_ok frame_dt_nonneg)
qed

lemma active_ok_reachable:
  "list_all wf_input is \<Longrightarrow> run_frames e (init_state e ds) is = Inr st \<Longrightarrow> list_all active_ok (falling st)"
  by (rule run_frames_invariant [where P = "\<lambda>s. list_all active_ok (falling s)" and Q = wf_input])
     (simp_all add: active_ok_update_state init_state_def)

lemma render_falling_ok:
  "list_all active_ok bs \<Longrightarrow> \<exists>as. render_falling bs = Inr as"
  by (induction bs) (auto simp: particle_alpha_def active_ok_def block_ok_def)

lemma sample_env_simps:
  "screen_w sample_env = 1920" "screen_h sample_env = 1080"
  "start_mouse_pos sample_env = (100, 100)" "start_ticks sample_env = 0"
  by (simp_all add: sample_env_def)

lemma sample_frame_simps:
  "tick_ms sample_frame = 100" "events sample_frame = []" "spawn_draw sample_frame = sample_spawn"
  "wrap_draw sample_frame = sample_wrap" "fault sample_frame = False"
  by (simp_all add: sample_frame_def)

lemma map_w_eq: "map_w = 11"
  by (simp add: map_w_def generate_grass_block_map_def Let_def)

lemma pixel_size_sample: "pixel_size sample_env = 34"
  by (simp add: pixel_size_def map_w_eq sample_env_simps)

lemma new_block_sample: "new_block sample_env sample_spawn = fresh_block"
  by (simp add: new_block_def Let_def pixel_size_sample choice_def uniform_def BLOCK_FALL_RATE_def
      sample_spawn_def sample_env_simps fresh_block_def)

lemma sample_clouds: "clouds sample_state =
   replicate 5 \<lparr> cloud_x = 760, cloud_y = 199, surf_w = 400, surf_h = 66, cloud_speed = 10 \<rparr>"
  by (simp add: sample_state_def init_state_def CLOUD_COUNT_def make_cloud_def Let_def sample_cloud_rnd_def
      uniform_def sample_env_simps CLOUD_SPEED_def upt_conv_Cons numeral_eq_Suc)

lemma sample_spawned: "spawned sample_env sample_state sample_frame = [fresh_block]"
  by (simp add: spawned_def sample_state_def init_state_def frame_dt_def BLOCK_SPAWN_RATE_def
      new_block_sample sample_frame_simps)

lemma advance_fresh_block: "advance (frame_dt sample_frame) fresh_block = aged_block"
  by (simp add: advance_def frame_dt_def sample_frame_simps fresh_block_def aged_block_def)

lemma sample_falling: "falling (update_state sample_env sample_state sample_frame) = [aged_block]"
  by (simp add: falling_update_state sample_spawned advance_fresh_block update_falling_def)
     (simp add: sample_state_def init_state_def keep_def aged_block_def sample_env_simps)

lemma sample_frame_ok:
  "frame sample_env sample_state sample_frame = Inr (update_state sample_env sample_state sample_frame)"
  by (simp add: frame_def sample_falling particle_alpha_def py_int_def sample_frame_simps aged_block_def)

lemma slow_frame_simps:
  "tick_ms slow_frame = 3000" "events slow_frame = []" "spawn_draw slow_frame = sample_spawn"
  "wrap_draw slow_frame = sample_wrap" "fault slow_frame = False"
  by (simp_all add: slow_frame_def sample_frame_def)

lemma slow_falling: "falling (update_state sample_env sample_state slow_frame) = [faded_block]"
  by (simp add: falling_update_state spawned_def sample_state_def init_state_def frame_dt_def
      BLOCK_SPAWN_RATE_def update_falling_def advance_def keep_def new_block_sample
      slow_frame_simps sample_env_simps fresh_block_def faded_block_def)

lemma clamp_py_int: "max 0 (min 255 (py_int v)) = max 0 (min 255 \<lfloor>v\<rfloor>)"
  unfolding py_int_def by (auto simp: max_def min_def) linarith+

lemma frame_total:
  assumes "list_all active_ok (falling st)" "wf_input i" "\<not> fault i"
  shows "frame e st i = Inr (update_state e st i)"
proof -
  from assms have "list_all active_ok (falling (update_state e st i))"
    by (simp add: active_ok_update_state)
  then obtain as where "render_falling (falling (update_state e st i)) = Inr as"
    using render_falling_ok by blast
  with assms show ?thesis
    by (simp add: frame_def)
qed

lemma wf_sample_spawn: "wf_spawn sample_spawn"
  by (simp add: wf_spawn_def sample_spawn_def unit_draw_def)

lemma wf_sample_wrap: "list_all (\<lambda>k. wf_wrap (sample_wrap k)) [0..<CLOUD_COUNT]"
  by (simp add: list_all_iff wf_wrap_def sample_wrap_def unit_draw_def)

lemma wf_sample_frames:
  "wf_input sample_frame" "wf_input slow_frame" "wf_input move_frame" "wf_input still_frame"
  "wf_input key_frame" "wf_input wrap_frame"
  by (simp_all add: wf_input_def sample_frame_def slow_frame_def move_frame_def still_frame_def
      key_frame_def wrap_frame_def wf_sample_spawn wf_sample_wrap)

lemma wf_sample_init: "wf_init sample_env sample_cloud_rnd"
  by (simp add: wf_init_def list_all_iff wf_cloud_rnd_def sample_cloud_rnd_def sample_env_simps
      unit_draw_def)

lemma sample_state_simps:
  "falling sample_state = []" "running sample_state = True" "spawn_accum sample_state = 0"
  "spawn_interval sample_state = 8 / 100"
  by (simp_all add: sample_state_def init_state_def BLOCK_SPAWN_RATE_def)

lemma no_fault_sample_frames:
  "\<not> fault move_frame" "\<not> fault still_frame" "\<not> fault key_frame" "\<not> fault wrap_frame"
  by (simp_all add: move_frame_def still_frame_def key_frame_def wrap_frame_def sample_frame_def)

lemma sample_frames_ok:
  "frame sample_env sample_state move_frame = Inr (update_state sample_env sample_state move_frame)"
  "frame sample_env sample_state still_frame = Inr (update_state sample_env sample_state still_frame)"
  "frame sample_env sample_state key_frame = Inr (update_state sample_env sample_state key_frame)"
  "frame sample_env sample_state wrap_frame = Inr (update_state sample_env sample_state wrap_frame)"
  by (simp_all add: frame_total sample_state_simps wf_sample_frames no_fault_sample_frames)

lemma spawn_interval_reachable:
  "run_frames e (init_state e ds) is = Inr st \<Longrightarrow> 2 / 100 \<le> spawn_interval st"
proof (rule run_frames_invariant [where P = "\<lambda>s. 2 / 100 \<le> spawn_interval s" and Q = "\<lambda>i. True"])
  show "2 / 100 \<le> spawn_interval (update_state e s i)" if "2 / 100 \<le> spawn_interval s" for s i
    using that max.cobounded1 [of "2 / 100 :: real"]
    unfolding spawn_interval_update_state by (simp only: split: if_split) blast
  show "2 / 100 \<le> spawn_interval (init_state e ds)"
    by (simp add: init_state_def BLOCK_SPAWN_RATE_def)
  show "list_all (\<lambda>i. True) is"
    by (simp add: list_all_iff)
qed

lemma length_update_falling: "length (update_falling e dt bs) \<le> length bs"
  by (simp add: update_falling_def le_trans [OF length_filter_le])

lemma sample_run:
  "run_frames sample_env (init_state sample_env sample_cloud_rnd) [sample_frame] =
     Inr (update_state sample_env sample_state sample_frame)"
  by (simp add: sample_state_def [symmetric] sample_state_simps sample_frame_ok)

lemma sample_second_frame_ok:
  "frame sample_env (update_state sample_env sample_state sample_frame) sample_frame =
     Inr (update_state sample_env (update_state sample_env sample_state sample_frame) sample_frame)"
  by (rule frame_total)
     (simp_all add: active_ok_update_state sample_state_simps wf_sample_frames sample_frame_simps)

lemma advance_y: "0 \<le> dt \<Longrightarrow> block_ok b \<Longrightarrow>
   blk_y b \<le> blk_y (advance dt b) \<and> (0 < dt \<longrightarrow> blk_y b < blk_y (advance dt b))"
proof -
  assume dt: "0 \<le> dt" and ok: "block_ok b"
  then have v: "0 < vy b" by (simp add: block_ok_def)
  with dt have "0 \<le> vy b * dt" by simp
  moreover from v have "0 < dt \<Longrightarrow> 0 < vy b * dt" by simp
  ultimately show ?thesis by (simp add: advance_def)
qed

lemma pre_update_ok:
  "list_all active_ok (falling st) \<Longrightarrow> wf_input i \<Longrightarrow> list_all block_ok (falling st @ spawned e st i)"
  by (auto simp: spawned_def list_all_iff active_ok_def new_block_ok wf_input_def)

lemma frame_no_zero_division:
  "list_all active_ok (falling st) \<Longrightarrow> wf_input i \<Longrightarrow> frame e st i \<noteq> Inl ZeroDivisionError"
  using frame_total [of st i e] by (cases "fault i") (simp_all add: frame_def)

lemma run_frames_no_zero_division:
  "list_all active_ok (falling st) \<Longrightarrow> list_all wf_input is \<Longrightarrow>
   run_frames e st is \<noteq> Inl ZeroDivisionError"
proof (induction "is" arbitrary: st)
  case Nil
  then show ?case by simp
next
  case (Cons i "is")
  show ?case
  proof (cases "frame e st i")
    case (Inl err)
    with frame_no_zero_division [of st i e] Cons.prems show ?thesis
      by auto
  next
    case (Inr s1)
    then have "s1 = update_state e st i" by (simp add: frame_Inr)
    with Cons.prems have "list_all active_ok (falling s1)"
      by (simp add: active_ok_update_state)
    with Cons.IH [of s1] Cons.prems Inr show ?thesis
      by simp
  qed
qed

lemma active_fraction:
  assumes "active_ok b"
  shows "5 / 2 \<le> max_life b \<and> life b \<le> max_life b \<and> 0 < life b / max_life b \<and>
         life b / max_life b \<le> 1 \<and> particle_alpha b \<noteq> Inl ZeroDivisionError"
proof -
  from assms have m: "5 / 2 \<le> max_life b" and l: "life b \<le> max_life b" and p: "0 < life b"
    by (simp_all add: active_ok_def block_ok_def)
  from m have pos: "0 < max_life b" by simp
  with p have "0 < life b / max_life b" by simp
  moreover from pos l have "life b / max_life b \<le> 1" by simp
  moreover from pos have "particle_alpha b \<noteq> Inl ZeroDivisionError"
    by (simp add: particle_alpha_def)
  ultimately show ?thesis using m l by blast
qed

lemma length_update_clouds: "length (update_clouds e dt ds cs) = length cs"
  by (simp add: update_clouds_def)

lemma nth_update_clouds:
  "k < length cs \<Longrightarrow> update_clouds e dt ds cs ! k = update_cloud e dt (ds k) (cs ! k)"
  by (simp add: update_clouds_def nth_enumerate_eq)

lemma surf_w_update_cloud: "surf_w (update_cloud e dt d c) = surf_w c"
  by (simp add: update_cloud_def Let_def)

lemma clouds_ok_update_state: "clouds_ok st \<Longrightarrow> clouds_ok (update_state e st i)"
  by (simp add: clouds_ok_def clouds_update_state length_update_clouds list_all_length
      nth_update_clouds surf_w_update_cloud)

lemma clouds_ok_init:
  assumes "6 \<le> screen_w e" "wf_init e ds"
  shows "clouds_ok (init_state e ds)"
proof -
  from assms(1) have "1 \<le> screen_w e div 6"
    by (simp add: pos_imp_zdiv_pos_iff)
  have "0 < n_w (ds k)" if "k < CLOUD_COUNT" for k
  proof -
    from assms(2) that have "screen_w e div 6 \<le> n_w (ds k)"
      by (simp add: wf_init_def list_all_iff wf_cloud_rnd_def)
    with \<open>1 \<le> screen_w e div 6\<close> show ?thesis by simp
  qed
  then show ?thesis
    by (simp add: clouds_ok_def init_state_def list_all_length make_cloud_def Let_def)
qed

lemma clouds_ok_reachable:
  assumes "6 \<le> screen_w e" "wf_init e ds" "run_frames e (init_state e ds) is = Inr st"
  shows "clouds_ok st"
proof (rule run_frames_invariant [where P = clouds_ok and Q = "\<lambda>i. True"])
  show "clouds_ok (update_state e s i)" if "clouds_ok s" for s i
    using that by (rule clouds_ok_update_state)
  show "clouds_ok (init_state e ds)"
    using assms(1,2) by (rule clouds_ok_init)
  show "list_all (\<lambda>i. True) is"
    by (simp add: list_all_iff)
  show "run_frames e (init_state e ds) is = Inr st"
    by (rule assms(3))
qed

lemma update_cloud_x:
  assumes "0 < surf_w c" "0 \<le> screen_w e" "unit_draw (r_offset d)"
  shows "(cloud_x c + cloud_speed c * dt > real_of_int (screen_w e + surf_w c)
            \<longrightarrow> cloud_x (update_cloud e dt d c) < 0) \<and>
         ((cloud_x (update_cloud e dt d c) \<noteq> cloud_x c + cloud_speed c * dt)
            = (cloud_x c + cloud_speed c * dt > real_of_int (screen_w e + surf_w c)))"
proof (cases "cloud_x c + cloud_speed c * dt > real_of_int (screen_w e + surf_w c)")
  case True
  from assms(2,3) have "0 \<le> real_of_int (screen_w e) * (2 / 10) * r_offset d"
    by (simp add: unit_draw_def)
  with assms(1) have neg: "- real_of_int (surf_w c)
      - uniform 0 (real_of_int (screen_w e) * (2 / 10)) (r_offset d) < 0"
    by (simp add: uniform_def)
  from True assms(1,2) have "0 < cloud_x c + cloud_speed c * dt"
    by simp
  with True neg show ?thesis
    by (simp add: update_cloud_def Let_def)
next
  case False
  then show ?thesis
    by (simp add: update_cloud_def Let_def)
qed

lemma sample_clouds_nth: "clouds sample_state ! 0 = sample_cloud"
  by (simp add: sample_clouds sample_cloud_def numeral_eq_Suc)

lemma run_frames_stopped: "\<not> running st \<Longrightarrow> run_frames e st is = Inr st"
  by (cases "is") simp_all

lemma stopped_state_simps: "running stopped_state = False" "falling stopped_state = []"
  by (simp_all add: stopped_state_def sample_state_simps)

lemma stopped_frame_ok:
  "frame sample_env stopped_state sample_frame = Inr (update_state sample_env stopped_state sample_frame)"
  by (rule frame_total) (simp_all add: stopped_state_simps wf_sample_frames sample_frame_simps)

lemma key_frame_stops: "\<not> running (update_state sample_env sample_state key_frame)"
  by (simp add: running_update_state poll_events_def key_frame_def)

lemma sample_main_key:
  "main pc sample_platform sample_env sample_cloud_rnd [key_frame, sample_frame] =
     Some (Inr (update_state sample_env sample_state key_frame),
           restore pc (hide_and_grab pc sample_platform))"
  by (simp add: main_def Let_def main_loop_def sample_state_def [symmetric] sample_state_simps
      sample_frames_ok key_frame_stops run_frames_stopped)

lemma sample_main_fault:
  "main pc sample_platform sample_env sample_cloud_rnd [sample_frame, fault_frame] =
     Some (Inl PygameError, restore pc (hide_and_grab pc sample_platform))"
proof -
  have "running (update_state sample_env sample_state sample_frame)"
    by (simp add: running_update_state poll_events_def sample_frame_simps sample_state_simps)
  moreover have "frame sample_env (update_state sample_env sample_state sample_frame) fault_frame
      = Inl PygameError"
    by (simp add: frame_def fault_frame_def)
  ultimately show ?thesis
    by (simp add: main_def Let_def main_loop_def sample_state_def [symmetric] sample_state_simps
        sample_frame_ok)
qed

subsection \<open>Rounding\<close>

lemma floor_log2_bounds:
  assumes "v \<noteq> 0"
  shows "2 powi \<lfloor>log 2 \<bar>v\<bar>\<rfloor> \<le> \<bar>v\<bar>"
proof -
  from assms have pos: "0 < \<bar>v\<bar>" by simp
  have "2 powr real_of_int \<lfloor>log 2 \<bar>v\<bar>\<rfloor> = (2::real) powi \<lfloor>log 2 \<bar>v\<bar>\<rfloor>"
    by (rule powr_real_of_int'; simp)
  with floor_log_eq_powr_iff [of "\<bar>v\<bar>" 2 "\<lfloor>log 2 \<bar>v\<bar>\<rfloor>"] pos show ?thesis
    by simp
qed

lemma expo_eq:
  assumes "2 powi k \<le> \<bar>v\<bar>" "\<bar>v\<bar> < 2 powi (k + 1)" "- 1022 \<le> k"
  shows "expo v = k"
proof -
  from assms(1) have pos: "0 < \<bar>v\<bar>"
    by (smt (verit) zero_less_power_int)
  have "2 powr real_of_int k = (2::real) powi k" "2 powr real_of_int (k + 1) = (2::real) powi (k + 1)"
    by (rule powr_real_of_int'; simp)+
  with floor_log_eq_powr_iff [of "\<bar>v\<bar>" 2 k] pos assms show ?thesis
    by (simp add: expo_def del: of_int_add)
qed

lemma fl_eval:
  assumes "2 powi k \<le> \<bar>v\<bar>" "\<bar>v\<bar> < 2 powi (k + 1)" "- 1022 \<le> k"
  shows "fl v = real_of_int (rne (v / 2 powi (k - 52))) * 2 powi (k - 52)"
proof -
  from assms(1) have "v \<noteq> 0"
    by (smt (verit) zero_less_power_int)
  with expo_eq [OF assms] show ?thesis
    by (simp add: fl_def)
qed

lemma rne_error: "\<bar>real_of_int (rne v) - v\<bar> \<le> 1 / 2"
proof -
  have "real_of_int \<lfloor>v\<rfloor> \<le> v" "v < real_of_int \<lfloor>v\<rfloor> + 1"
    by linarith+
  then show ?thesis
    by (auto simp: rne_def Let_def)
qed

lemma fl_error: "\<bar>fl v - v\<bar> \<le> max (\<bar>v\<bar> / 2 ^ 53) (2 powi (- 1075))"
proof (cases "v = 0")
  case True
  then show ?thesis by (simp add: fl_def)
next
  case False
  define u :: real where "u = 2 powi (expo v - 52)"
  have u: "0 < u" by (simp add: u_def)
  have "fl v - v = u * (real_of_int (rne (v / u)) - v / u)"
    using False u by (simp add: fl_def u_def algebra_simps)
  then have "\<bar>fl v - v\<bar> = u * \<bar>real_of_int (rne (v / u)) - v / u\<bar>"
    using u by (simp add: abs_mult)
  also have "\<dots> \<le> u * (1 / 2)"
    using u rne_error [of "v / u"] by (intro mult_left_mono) simp_all
  also have "u * (1 / 2) = 2 powi (expo v - 53)"
    by (simp add: u_def power_int_diff)
  finally have half: "\<bar>fl v - v\<bar> \<le> 2 powi (expo v - 53)" .
  show ?thesis
  proof (cases "- 1022 \<le> \<lfloor>log 2 \<bar>v\<bar>\<rfloor>")
    case True
    then have "expo v = \<lfloor>log 2 \<bar>v\<bar>\<rfloor>" by (simp add: expo_def)
    then have "(2::real) powi (expo v - 53) = 2 powi \<lfloor>log 2 \<bar>v\<bar>\<rfloor> / 2 ^ 53"
      by (simp add: power_int_diff)
    also have "\<dots> \<le> \<bar>v\<bar> / 2 ^ 53"
      using floor_log2_bounds [OF False] by (simp add: divide_right_mono)
    finally have "\<bar>fl v - v\<bar> \<le> \<bar>v\<bar> / 2 ^ 53"
      using half by (rule order_trans [rotated])
    then show ?thesis by (rule max.coboundedI1)
  next
    case False
    then have "expo v = - 1022" by (simp add: expo_def)
    then have "expo v - 53 = - 1075" by simp
    with half have "\<bar>fl v - v\<bar> \<le> 2 powi (- 1075)" by (simp only:)
    then show ?thesis by (rule max.coboundedI2)
  qed
qed

lemma fl_tenth: "fl (1 / 10) = 3602879701896397 / 36028797018963968"
  by (subst fl_eval [where k = "- 4"]) (simp_all add: rne_def power_int_minus)

lemma frame_dt_fp_sample: "frame_dt_fp sample_frame = 3602879701896397 / 36028797018963968"
  by (simp add: frame_dt_fp_def sample_frame_simps fl_tenth)

lemma fl_life_fresh:
  "fl (4 - 3602879701896397 / 36028797018963968) = 8782019273372467 / 2251799813685248"
  by (subst fl_eval [where k = 1]) (simp_all add: rne_def power_int_minus)

lemma life_advance_fp_fresh:
  "life (advance_fp (frame_dt_fp sample_frame) fresh_block) = 8782019273372467 / 2251799813685248"
proof -
  have "life (advance_fp (frame_dt_fp sample_frame) fresh_block)
      = fl (4 - 3602879701896397 / 36028797018963968)"
    by (simp only: advance_fp_def frame_dt_fp_sample fresh_block_def FallingBlock.simps)
  then show ?thesis
    by (simp only: fl_life_fresh)
qed

lemma fl_fall_fresh: "fl (200 * (3602879701896397 / 36028797018963968)) = 20"
proof -
  have "fl (90071992547409925 / 4503599627370496) = 20"
    by (subst fl_eval [where k = 4]) (simp_all add: rne_def power_int_minus)
  then show ?thesis by simp
qed

lemma fl_y_fresh: "fl (- 34 + 20) = - 14"
proof -
  have "fl (- 14) = - 14"
    by (subst fl_eval [where k = 3]) (simp_all add: rne_def power_int_minus)
  then show ?thesis by simp
qed

lemma blk_y_advance_fp_fresh:
  "blk_y (advance_fp (frame_dt_fp sample_frame) fresh_block) = - 14"
proof -
  have "blk_y (advance_fp (frame_dt_fp sample_frame) fresh_block)
      = fl (- 34 + fl (200 * (3602879701896397 / 36028797018963968)))"
    by (simp only: advance_fp_def frame_dt_fp_sample fresh_block_def FallingBlock.simps)
  then show ?thesis
    by (simp only: fl_fall_fresh fl_y_fresh)
qed

lemma fl_quarter: "fl (1 / 4) = 1 / 4"
  by (subst fl_eval [where k = "- 2"]) (simp_all add: rne_def power_int_minus)

lemma fl_255_quarter: "fl (255 / 4) = 255 / 4"
  by (subst fl_eval [where k = 5]) (simp_all add: rne_def power_int_minus)

lemma particle_alpha_fp_faded: "particle_alpha_fp faded_block = Inr 63"
  by (simp add: particle_alpha_fp_def faded_block_def fl_quarter fl_255_quarter py_int_def)

lemma fl_cooled_quotient:
  "fl (5404319552844595 / 2251799813685248 / 4) = 5404319552844595 / 9007199254740992"
  by (subst fl_eval [where k = "- 1"]) (simp_all add: rne_def power_int_minus)

lemma fl_cooled_product: "fl (255 * (5404319552844595 / 9007199254740992)) = 153"
  by (subst fl_eval [where k = 7]) (simp_all add: rne_def power_int_minus)

lemma fl_1900ms: "fl (19 / 10) = 4278419646001971 / 2251799813685248"
  by (subst fl_eval [where k = 0]) (simp_all add: rne_def power_int_minus)

lemma fl_600ms: "fl (3 / 5) = 5404319552844595 / 9007199254740992"
  by (subst fl_eval [where k = "- 1"]) (simp_all add: rne_def power_int_minus)

lemma fl_short_first:
  "fl (5 / 2 - 4278419646001971 / 2251799813685248) = 1351079888211149 / 2251799813685248"
  by (subst fl_eval [where k = "- 1"]) (simp_all add: rne_def power_int_minus)

lemma fl_short_second:
  "fl (1351079888211149 / 2251799813685248 - 5404319552844595 / 9007199254740992)
     = 1 / 9007199254740992"
  by (subst fl_eval [where k = "- 53"]) (simp_all add: rne_def power_int_minus)

section \<open>The properties\<close>

subsection \<open>Particle ageing and removal\<close>

text \<open>
  Claim C1 says that the update takes exactly \<open>dt\<close> off the remaining lifetime. In the
  first frame of the run the clock reports 100 ms, so \<open>dt\<close> is the float \<open>0.1\<close>, and the
  block just spawned has lifetime 4: line 166 stores the float nearest to \<open>4 - dt\<close>,
  which is not \<open>4 - dt\<close>.
\<close>

theorem lifetime_not_exact_counterexample:
  "frame_dt_fp sample_frame = 3602879701896397 / 36028797018963968 \<and>
   life fresh_block = 4 \<and>
   life (advance_fp (frame_dt_fp sample_frame) fresh_block) = 8782019273372467 / 2251799813685248 \<and>
   life (advance_fp (frame_dt_fp sample_frame) fresh_block)
     \<noteq> life fresh_block - frame_dt_fp sample_frame"
proof -
  have l: "life fresh_block = 4"
    by (simp add: fresh_block_def)
  have d: "life fresh_block - frame_dt_fp sample_frame = 4 - 3602879701896397 / 36028797018963968"
    by (simp only: l frame_dt_fp_sample)
  have ne: "(8782019273372467 / 2251799813685248 :: real) \<noteq> 4 - 3602879701896397 / 36028797018963968"
    by simp
  have "life (advance_fp (frame_dt_fp sample_frame) fresh_block)
     \<noteq> life fresh_block - frame_dt_fp sample_frame"
    unfolding life_advance_fp_fresh d by (rule ne)
  with frame_dt_fp_sample l life_advance_fp_fresh show ?thesis
    by blast
qed

text \<open>
  Claim C1, amended. For every block of the list and every delta \<open>dt\<close>, the update
  replaces the remaining lifetime by \<open>life - dt\<close> rounded to the nearest float, which
  differs from \<open>life - dt\<close> by at most the fraction \<open>2^-53\<close> of it (or by \<open>2^-1075\<close>, for a
  subnormal result); and a block is in the list after the update if and only if it is
  such an updated block with lifetime above zero and vertical position below
  \<open>screen_h + 200\<close>.
\<close>

theorem particle_update_fp:
  "(\<forall>b \<in> set bs.
      life (advance_fp dt b) = fl (life b - dt) \<and>
      \<bar>life (advance_fp dt b) - (life b - dt)\<bar> \<le> max (\<bar>life b - dt\<bar> / 2 ^ 53) (2 powi (- 1075))) \<and>
   (\<forall>b'. b' \<in> set (update_falling_fp e dt bs) \<longleftrightarrow>
      (\<exists>b \<in> set bs. b' = advance_fp dt b) \<and>
      0 < life b' \<and> blk_y b' < real_of_int (screen_h e) + 200)"
proof -
  have "life (advance_fp dt b) = fl (life b - dt)" for b
    by (simp add: advance_fp_def)
  moreover have "\<bar>life (advance_fp dt b) - (life b - dt)\<bar>
      \<le> max (\<bar>life b - dt\<bar> / 2 ^ 53) (2 powi (- 1075))" for b
    unfolding advance_fp_def using fl_error [of "life b - dt"] by simp
  moreover have "\<forall>b'. b' \<in> set (update_falling_fp e dt bs) \<longleftrightarrow>
      (\<exists>b \<in> set bs. b' = advance_fp dt b) \<and>
      0 < life b' \<and> blk_y b' < real_of_int (screen_h e) + 200"
    unfolding update_falling_fp_def by (auto simp: keep_def)
  ultimately show ?thesis by blast
qed

text \<open>
  The block spawned in the first frame of the run, updated with the float \<open>0.1\<close>.
\<close>

theorem particle_update_fp_witness:
  "fresh_block \<in> set [fresh_block] \<and>
   life (advance_fp (frame_dt_fp sample_frame) fresh_block)
     = fl (life fresh_block - frame_dt_fp sample_frame) \<and>
   \<bar>life (advance_fp (frame_dt_fp sample_frame) fresh_block)
      - (life fresh_block - frame_dt_fp sample_frame)\<bar>
     \<le> max (\<bar>life fresh_block - frame_dt_fp sample_frame\<bar> / 2 ^ 53) (2 powi (- 1075)) \<and>
   0 < life (advance_fp (frame_dt_fp sample_frame) fresh_block) \<and>
   blk_y (advance_fp (frame_dt_fp sample_frame) fresh_block) < real_of_int (screen_h sample_env) + 200 \<and>
   advance_fp (frame_dt_fp sample_frame) fresh_block
     \<in> set (update_falling_fp sample_env (frame_dt_fp sample_frame) [fresh_block])"
proof -
  note inst = particle_update_fp [of "[fresh_block]" "frame_dt_fp sample_frame" sample_env]
  have m: "fresh_block \<in> set [fresh_block]"
    by simp
  have k: "0 < life (advance_fp (frame_dt_fp sample_frame) fresh_block)"
    "blk_y (advance_fp (frame_dt_fp sample_frame) fresh_block) < real_of_int (screen_h sample_env) + 200"
    by (simp_all add: life_advance_fp_fresh blk_y_advance_fp_fresh sample_env_simps)
  from inst m have l: "life (advance_fp (frame_dt_fp sample_frame) fresh_block)
     = fl (life fresh_block - frame_dt_fp sample_frame) \<and>
   \<bar>life (advance_fp (frame_dt_fp sample_frame) fresh_block)
      - (life fresh_block - frame_dt_fp sample_frame)\<bar>
     \<le> max (\<bar>life fresh_block - frame_dt_fp sample_frame\<bar> / 2 ^ 53) (2 powi (- 1075))"
    by blast
  from inst m k have "advance_fp (frame_dt_fp sample_frame) fresh_block
     \<in> set (update_falling_fp sample_env (frame_dt_fp sample_frame) [fresh_block])"
    by blast
  with m l k show ?thesis
    by blast
qed

text \<open>
  What the rounding decides: a block of lifetime 2.5 after frames of 1900 ms and of
  600 ms has lifetime \<open>2^-53\<close> on floats and stays in the list, where exact arithmetic
  would give 0 and remove it.
\<close>

lemma rounded_lifetime_survives:
  "life (advance_fp (fl (3 / 5)) (advance_fp (fl (19 / 10)) short_block)) = 1 / 9007199254740992 \<and>
   life (advance (3 / 5) (advance (19 / 10) short_block)) = 0"
proof -
  have "life (advance_fp (fl (3 / 5)) (advance_fp (fl (19 / 10)) short_block))
      = fl (fl (5 / 2 - fl (19 / 10)) - fl (3 / 5))"
    by (simp only: advance_fp_def short_block_def FallingBlock.simps)
  also have "\<dots> = 1 / 9007199254740992"
    by (simp only: fl_1900ms fl_600ms fl_short_first fl_short_second)
  finally have a: "life (advance_fp (fl (3 / 5)) (advance_fp (fl (19 / 10)) short_block))
      = 1 / 9007199254740992" .
  have b: "life (advance (3 / 5) (advance (19 / 10) short_block)) = 0"
    by (simp add: advance_def short_block_def)
  from a b show ?thesis by (rule conjI)
qed

subsection \<open>Cloud wraparound\<close>

text \<open>
  Claim C2. On a display at least 6 pixels wide, in every state the loop reaches from
  startup there are \<open>CLOUD_COUNT\<close> clouds, before and after the next frame. For each of
  them the frame leaves the advanced position \<open>x + speed * dt\<close> unless that exceeds
  \<open>screen_w\<close> plus the sprite width, and exactly then replaces it by a position below
  zero.
\<close>

theorem cloud_wrap_and_count:
  assumes "6 \<le> screen_w e" "wf_init e ds" "run_frames e (init_state e ds) is = Inr st"
    and "wf_input i" "frame e st i = Inr st'"
  shows "length (clouds st) = CLOUD_COUNT \<and> length (clouds st') = CLOUD_COUNT \<and>
         (\<forall>k < CLOUD_COUNT.
            surf_w (clouds st' ! k) = surf_w (clouds st ! k) \<and>
            (cloud_x (clouds st ! k) + cloud_speed (clouds st ! k) * frame_dt i
                > real_of_int (screen_w e + surf_w (clouds st ! k))
              \<longrightarrow> cloud_x (clouds st' ! k) < 0) \<and>
            ((cloud_x (clouds st' ! k)
                \<noteq> cloud_x (clouds st ! k) + cloud_speed (clouds st ! k) * frame_dt i)
              = (cloud_x (clouds st ! k) + cloud_speed (clouds st ! k) * frame_dt i
                  > real_of_int (screen_w e + surf_w (clouds st ! k)))))"
proof -
  from assms(1-3) have ok: "clouds_ok st"
    by (rule clouds_ok_reachable)
  from assms(5) have st': "st' = update_state e st i"
    by (simp add: frame_Inr)
  from ok have ok': "clouds_ok st'"
    unfolding st' by (rule clouds_ok_update_state)
  have each: "surf_w (clouds st' ! k) = surf_w (clouds st ! k) \<and>
            (cloud_x (clouds st ! k) + cloud_speed (clouds st ! k) * frame_dt i
                > real_of_int (screen_w e + surf_w (clouds st ! k))
              \<longrightarrow> cloud_x (clouds st' ! k) < 0) \<and>
            ((cloud_x (clouds st' ! k)
                \<noteq> cloud_x (clouds st ! k) + cloud_speed (clouds st ! k) * frame_dt i)
              = (cloud_x (clouds st ! k) + cloud_speed (clouds st ! k) * frame_dt i
                  > real_of_int (screen_w e + surf_w (clouds st ! k))))"
    if k: "k < CLOUD_COUNT" for k
  proof -
    from ok k have len: "k < length (clouds st)" and w: "0 < surf_w (clouds st ! k)"
      by (simp_all add: clouds_ok_def list_all_length)
    from assms(4) k have "unit_draw (r_offset (wrap_draw i k))"
      by (simp add: wf_input_def list_all_iff wf_wrap_def)
    moreover from assms(1) have "0 \<le> screen_w e" by simp
    moreover from len have "clouds st' ! k = update_cloud e (frame_dt i) (wrap_draw i k) (clouds st ! k)"
      by (simp add: st' clouds_update_state nth_update_clouds)
    ultimately show ?thesis
      using update_cloud_x [OF w, of e "wrap_draw i k" "frame_dt i"]
      by (simp add: surf_w_update_cloud)
  qed
  from ok ok' each show ?thesis
    by (simp add: clouds_ok_def)
qed

text \<open>
  A frame of 200 s from the start state: every cloud moves from 760 to 2760, beyond
  1920 + 400, and is put back at -592.
\<close>

theorem cloud_wrap_and_count_witness:
  "6 \<le> screen_w sample_env \<and> wf_init sample_env sample_cloud_rnd \<and>
   run_frames sample_env (init_state sample_env sample_cloud_rnd) [] = Inr sample_state \<and>
   wf_input wrap_frame \<and>
   frame sample_env sample_state wrap_frame = Inr (update_state sample_env sample_state wrap_frame) \<and>
   0 < CLOUD_COUNT \<and> clouds sample_state ! 0 = sample_cloud \<and>
   cloud_x sample_cloud + cloud_speed sample_cloud * frame_dt wrap_frame
     > real_of_int (screen_w sample_env + surf_w sample_cloud) \<and>
   length (clouds (update_state sample_env sample_state wrap_frame)) = CLOUD_COUNT \<and>
   cloud_x (clouds (update_state sample_env sample_state wrap_frame) ! 0) < 0"
proof -
  have h1: "6 \<le> screen_w sample_env"
    by (simp add: sample_env_simps)
  have h3: "run_frames sample_env (init_state sample_env sample_cloud_rnd) [] = Inr sample_state"
    by (simp add: sample_state_def)
  have k: "0 < CLOUD_COUNT"
    by (simp add: CLOUD_COUNT_def)
  have x: "cloud_x sample_cloud + cloud_speed sample_cloud * frame_dt wrap_frame
     > real_of_int (screen_w sample_env + surf_w sample_cloud)"
    by (simp add: sample_cloud_def frame_dt_def wrap_frame_def sample_env_simps)
  note inst = cloud_wrap_and_count [OF h1 wf_sample_init h3 wf_sample_frames(6) sample_frames_ok(4)]
  from inst have l: "length (clouds (update_state sample_env sample_state wrap_frame)) = CLOUD_COUNT"
    by blast
  from inst k x have c: "cloud_x (clouds (update_state sample_env sample_state wrap_frame) ! 0) < 0"
    unfolding sample_clouds_nth [symmetric] by blast
  from h1 wf_sample_init h3 wf_sample_frames(6) sample_frames_ok(4) k sample_clouds_nth x l c
  show ?thesis by blast
qed

subsection \<open>Alpha of a rendered particle\<close>

text \<open>
  Claim C3 says that the alpha is \<open>round(255 * f)\<close> clamped to \<open>[0, 255]\<close>. After a first
  frame of 3 s the run holds one block with remaining lifetime 1 of 4, so
  \<open>255 * f = 63.75\<close>, with no rounding in the quotient or the product: line 186 computes
  \<open>int(63.75) = 63\<close>, rounding gives 64.
\<close>

theorem alpha_round_counterexample:
  "falling (update_state sample_env sample_state slow_frame) = [faded_block] \<and>
   particle_alpha faded_block = Inr 63 \<and>
   particle_alpha_fp faded_block = Inr 63 \<and>
   max 0 (min 255 (round (255 * (life faded_block / max_life faded_block)))) = 64"
  by (simp add: slow_falling particle_alpha_fp_faded)
     (simp add: faded_block_def particle_alpha_def py_int_def round_def)

text \<open>
  Claim C3, amended. For a block with total lifetime other than zero the alpha is
  the integer part of \<open>255 * f\<close>, clamped to \<open>[0, 255]\<close>, where the quotient \<open>f\<close> and the
  product are the floats line 186 computes (\<open>int()\<close> truncates towards zero, which
  under the clamp is the floor).
\<close>

theorem particle_alpha_fp_floor:
  assumes "max_life b \<noteq> 0"
  shows "particle_alpha_fp b = Inr (max 0 (min 255 \<lfloor>fl (255 * fl (life b / max_life b))\<rfloor>))"
  using assms by (simp add: particle_alpha_fp_def clamp_py_int)

text \<open>
  The block of the run after 1.6 s: the product \<open>255 * f\<close> is below 153 in exact
  arithmetic and rounds to the float 153, so the alpha is 153.
\<close>

theorem particle_alpha_fp_floor_witness:
  "max_life cooled_block \<noteq> 0 \<and>
   fl (life cooled_block / max_life cooled_block) = 5404319552844595 / 9007199254740992 \<and>
   fl (255 * fl (life cooled_block / max_life cooled_block)) = 153 \<and>
   particle_alpha_fp cooled_block = Inr 153"
proof -
  have h: "max_life cooled_block \<noteq> 0"
    by (simp add: cooled_block_def)
  have q: "fl (life cooled_block / max_life cooled_block) = 5404319552844595 / 9007199254740992"
    using fl_cooled_quotient by (simp add: cooled_block_def)
  have p: "fl (255 * fl (life cooled_block / max_life cooled_block)) = 153"
    by (simp only: q fl_cooled_product)
  from particle_alpha_fp_floor [OF h] have "particle_alpha_fp cooled_block = Inr 153"
    by (simp only: p) simp
  with h q p show ?thesis by blast
qed

subsection \<open>Mouse motion as an exit trigger\<close>

text \<open>
  Claim C4. A mouse-motion event at the recorded start position leaves \<open>running\<close> as
  it is; one at any other position sets it to false. So a poll that holds a motion
  event away from the start position ends with \<open>running\<close> false, whatever else is in
  the queue, and so does the frame; a frame whose events are all motion events at the
  start position leaves \<open>running\<close> unchanged.
\<close>

theorem mouse_motion_exit:
  "handle_event s r (MOUSEMOTION s) = r \<and>
   (pos \<noteq> s \<longrightarrow> handle_event s r (MOUSEMOTION pos) = False) \<and>
   (MOUSEMOTION pos \<in> set evs \<and> pos \<noteq> s \<longrightarrow> poll_events s r evs = False) \<and>
   (frame e st i = Inr st' \<and> MOUSEMOTION pos \<in> set (events i) \<and> pos \<noteq> start_mouse_pos e
      \<longrightarrow> \<not> running st') \<and>
   (frame e st i = Inr st' \<and> (\<forall>ev \<in> set (events i). ev = MOUSEMOTION (start_mouse_pos e))
      \<longrightarrow> running st' = running st)"
proof -
  have a: "MOUSEMOTION pos \<in> set evs' \<Longrightarrow> pos \<noteq> s' \<Longrightarrow> poll_events s' r' evs' = False"
    for s' r' evs'
    by (rule poll_events_trigger [of "MOUSEMOTION pos"]) simp_all
  have b: "frame e st i = Inr st' \<Longrightarrow>
      running st' = poll_events (start_mouse_pos e) (running st) (events i)"
    by (auto dest: frame_Inr simp: running_update_state)
  have c: "\<forall>ev \<in> set (events i). ev = MOUSEMOTION (start_mouse_pos e) \<Longrightarrow>
      poll_events (start_mouse_pos e) (running st) (events i) = running st"
    by (rule poll_events_ignored) simp
  from a b c show ?thesis by auto
qed

text \<open>
  Two frames from the start state, with the start position (100, 100): one with a
  motion event at (101, 100), one with a motion event at (100, 100) only.
\<close>

theorem mouse_motion_exit_witness:
  "(101, 100) \<noteq> start_mouse_pos sample_env \<and>
   MOUSEMOTION (101, 100) \<in> set (events move_frame) \<and>
   frame sample_env sample_state move_frame = Inr (update_state sample_env sample_state move_frame) \<and>
   running sample_state \<and> \<not> running (update_state sample_env sample_state move_frame) \<and>
   frame sample_env sample_state still_frame = Inr (update_state sample_env sample_state still_frame) \<and>
   events still_frame = [MOUSEMOTION (start_mouse_pos sample_env)] \<and>
   running (update_state sample_env sample_state still_frame)"
proof -
  have h1: "(101, 100) \<noteq> start_mouse_pos sample_env"
    by (simp add: sample_env_simps)
  have h2: "MOUSEMOTION (101, 100) \<in> set (events move_frame)"
    by (simp add: move_frame_def)
  have h3: "events still_frame = [MOUSEMOTION (start_mouse_pos sample_env)]"
    by (simp add: still_frame_def sample_env_simps)
  then have h3': "\<forall>ev \<in> set (events still_frame). ev = MOUSEMOTION (start_mouse_pos sample_env)"
    by simp
  have c1: "\<not> running (update_state sample_env sample_state move_frame)"
    using mouse_motion_exit [of "start_mouse_pos sample_env" True "(101, 100)" "events move_frame"
        sample_env sample_state move_frame "update_state sample_env sample_state move_frame"]
      h1 h2 sample_frames_ok(1) by blast
  have c2: "running (update_state sample_env sample_state still_frame)"
    using mouse_motion_exit [of "start_mouse_pos sample_env" True "(101, 100)" "events still_frame"
        sample_env sample_state still_frame "update_state sample_env sample_state still_frame"]
      h3' sample_frames_ok(2) sample_state_simps(2) by blast
  from h1 h2 h3 c1 c2 sample_frames_ok(1,2) sample_state_simps(2) show ?thesis
    by blast
qed

subsection \<open>Spawning\<close>

text \<open>
  Claim C5. The spawn step appends no block or exactly one. When it spawns (the
  accumulator has reached the interval) the new interval is the Gaussian draw around
  \<open>BLOCK_SPAWN_RATE\<close> with deviation \<open>0.4 * BLOCK_SPAWN_RATE\<close>, floored at 0.02; when it
  does not, the state is unchanged. A frame lengthens the list by at most one, and at
  every loop head of every run the interval in force is at least 0.02.
\<close>

theorem spawn_at_most_one:
  "(falling (spawn_step e d st) = falling st \<or>
    falling (spawn_step e d st) = falling st @ [new_block e d]) \<and>
   (spawn_interval st \<le> spawn_accum st \<longrightarrow>
      falling (spawn_step e d st) = falling st @ [new_block e d] \<and>
      spawn_interval (spawn_step e d st) =
        max (2 / 100) (BLOCK_SPAWN_RATE + z_interval d * (BLOCK_SPAWN_RATE * (4 / 10))) \<and>
      2 / 100 \<le> spawn_interval (spawn_step e d st)) \<and>
   (spawn_accum st < spawn_interval st \<longrightarrow> spawn_step e d st = st) \<and>
   (frame e st i = Inr st' \<longrightarrow> length (falling st') \<le> length (falling st) + 1) \<and>
   (run_frames e (init_state e ds) is = Inr st \<longrightarrow> 2 / 100 \<le> spawn_interval st)"
proof -
  have a: "spawn_interval st \<le> spawn_accum st \<Longrightarrow>
      falling (spawn_step e d st) = falling st @ [new_block e d] \<and>
      spawn_interval (spawn_step e d st) =
        max (2 / 100) (BLOCK_SPAWN_RATE + z_interval d * (BLOCK_SPAWN_RATE * (4 / 10))) \<and>
      2 / 100 \<le> spawn_interval (spawn_step e d st)"
    by (simp add: spawn_step_def gauss_def)
  have b: "spawn_accum st < spawn_interval st \<Longrightarrow> spawn_step e d st = st"
    by (simp add: spawn_step_def)
  have c: "length (falling st') \<le> length (falling st) + 1" if "frame e st i = Inr st'"
  proof -
    from that have "falling st' = update_falling e (frame_dt i) (falling st @ spawned e st i)"
      by (auto dest: frame_Inr simp: falling_update_state)
    moreover have "length (falling st @ spawned e st i) \<le> length (falling st) + 1"
      by (simp add: spawned_def)
    ultimately show ?thesis
      using length_update_falling [of e "frame_dt i" "falling st @ spawned e st i"] by simp
  qed
  have d: "falling (spawn_step e d st) = falling st \<or>
      falling (spawn_step e d st) = falling st @ [new_block e d]"
    by (simp add: spawn_step_def)
  from a b c d spawn_interval_reachable [of e ds "is" st] show ?thesis
    by blast
qed

text \<open>
  In the concrete run: a spawn step with the accumulator at 0.1, one with the
  accumulator at 0, and the first frame.
\<close>

theorem spawn_at_most_one_witness:
  "spawn_interval (sample_state \<lparr> spawn_accum := 1 / 10 \<rparr>)
      \<le> spawn_accum (sample_state \<lparr> spawn_accum := 1 / 10 \<rparr>) \<and>
   falling (spawn_step sample_env sample_spawn (sample_state \<lparr> spawn_accum := 1 / 10 \<rparr>)) =
      falling (sample_state \<lparr> spawn_accum := 1 / 10 \<rparr>) @ [new_block sample_env sample_spawn] \<and>
   2 / 100 \<le> spawn_interval (spawn_step sample_env sample_spawn (sample_state \<lparr> spawn_accum := 1 / 10 \<rparr>)) \<and>
   spawn_accum sample_state < spawn_interval sample_state \<and>
   spawn_step sample_env sample_spawn sample_state = sample_state \<and>
   frame sample_env sample_state sample_frame = Inr (update_state sample_env sample_state sample_frame) \<and>
   length (falling (update_state sample_env sample_state sample_frame)) \<le> length (falling sample_state) + 1 \<and>
   run_frames sample_env (init_state sample_env sample_cloud_rnd) [sample_frame] =
     Inr (update_state sample_env sample_state sample_frame) \<and>
   2 / 100 \<le> spawn_interval (update_state sample_env sample_state sample_frame)"
proof -
  have h1: "spawn_interval (sample_state \<lparr> spawn_accum := 1 / 10 \<rparr>)
      \<le> spawn_accum (sample_state \<lparr> spawn_accum := 1 / 10 \<rparr>)"
    by (simp add: sample_state_simps)
  have h2: "spawn_accum sample_state < spawn_interval sample_state"
    by (simp add: sample_state_simps)
  note a = spawn_at_most_one [of sample_env sample_spawn "sample_state \<lparr> spawn_accum := 1 / 10 \<rparr>"
      sample_frame "update_state sample_env sample_state sample_frame" sample_cloud_rnd "[]"]
  note b = spawn_at_most_one [of sample_env sample_spawn sample_state
      sample_frame "update_state sample_env sample_state sample_frame" sample_cloud_rnd "[]"]
  note c = spawn_at_most_one [of sample_env sample_spawn "update_state sample_env sample_state sample_frame"
      sample_frame "update_state sample_env sample_state sample_frame" sample_cloud_rnd "[sample_frame]"]
  from a h1 have c1: "falling (spawn_step sample_env sample_spawn (sample_state \<lparr> spawn_accum := 1 / 10 \<rparr>)) =
      falling (sample_state \<lparr> spawn_accum := 1 / 10 \<rparr>) @ [new_block sample_env sample_spawn] \<and>
      2 / 100 \<le> spawn_interval (spawn_step sample_env sample_spawn (sample_state \<lparr> spawn_accum := 1 / 10 \<rparr>))"
    by blast
  from b h2 sample_frame_ok have c2: "spawn_step sample_env sample_spawn sample_state = sample_state \<and>
      length (falling (update_state sample_env sample_state sample_frame)) \<le> length (falling sample_state) + 1"
    by blast
  from c sample_run have c3: "2 / 100 \<le> spawn_interval (update_state sample_env sample_state sample_frame)"
    by blast
  from h1 h2 c1 c2 c3 sample_frame_ok sample_run show ?thesis
    by blast
qed

subsection \<open>Blocks only fall\<close>

text \<open>
  Claim C6. In every state the loop reaches from startup (the draws of
  \<open>random()\<close> lying in \<open>[0, 1)\<close>), every block of the list has fall speed at least 150, so
  the update of the next frame does not decrease its vertical position and increases
  it when the clock reports a positive number of milliseconds; every block of the list
  after the frame is the update of a block that was in the list, at a position not
  above.
\<close>

theorem blocks_only_fall:
  assumes "list_all wf_input is" "run_frames e (init_state e ds) is = Inr st"
    and "wf_input i" "frame e st i = Inr st'"
  shows "(\<forall>b \<in> set (falling st @ spawned e st i).
            150 \<le> vy b \<and> blk_y b \<le> blk_y (advance (frame_dt i) b) \<and>
            (0 < tick_ms i \<longrightarrow> blk_y b < blk_y (advance (frame_dt i) b))) \<and>
         (\<forall>b' \<in> set (falling st').
            \<exists>b \<in> set (falling st @ spawned e st i).
              b' = advance (frame_dt i) b \<and> blk_y b \<le> blk_y b')"
proof -
  from assms(1,2) have act: "list_all active_ok (falling st)"
    by (rule active_ok_reachable)
  from act assms(3) have pre: "list_all block_ok (falling st @ spawned e st i)"
    by (rule pre_update_ok)
  have dt: "0 \<le> frame_dt i" "0 < tick_ms i \<Longrightarrow> 0 < frame_dt i"
    by (simp_all add: frame_dt_def)
  have first: "\<forall>b \<in> set (falling st @ spawned e st i).
            150 \<le> vy b \<and> blk_y b \<le> blk_y (advance (frame_dt i) b) \<and>
            (0 < tick_ms i \<longrightarrow> blk_y b < blk_y (advance (frame_dt i) b))"
  proof
    fix b assume "b \<in> set (falling st @ spawned e st i)"
    with pre have ok: "block_ok b" by (simp add: list_all_iff)
    then have "150 \<le> vy b" by (simp add: block_ok_def)
    with advance_y [OF dt(1) ok] dt(2)
    show "150 \<le> vy b \<and> blk_y b \<le> blk_y (advance (frame_dt i) b) \<and>
            (0 < tick_ms i \<longrightarrow> blk_y b < blk_y (advance (frame_dt i) b))"
      by blast
  qed
  from assms(4) have "falling st' = update_falling e (frame_dt i) (falling st @ spawned e st i)"
    by (auto dest: frame_Inr simp: falling_update_state)
  then have second: "\<forall>b' \<in> set (falling st').
      \<exists>b \<in> set (falling st @ spawned e st i). b' = advance (frame_dt i) b \<and> blk_y b \<le> blk_y b'"
    using first unfolding update_falling_def by fastforce
  from first second show ?thesis by (rule conjI)
qed

text \<open>
  The second frame of the concrete run, which updates the block spawned in the first.
\<close>

theorem blocks_only_fall_witness:
  "list_all wf_input [sample_frame] \<and>
   run_frames sample_env (init_state sample_env sample_cloud_rnd) [sample_frame] =
     Inr (update_state sample_env sample_state sample_frame) \<and>
   wf_input sample_frame \<and>
   frame sample_env (update_state sample_env sample_state sample_frame) sample_frame =
     Inr (update_state sample_env (update_state sample_env sample_state sample_frame) sample_frame) \<and>
   aged_block \<in> set (falling (update_state sample_env sample_state sample_frame)) \<and>
   0 < tick_ms sample_frame \<and>
   150 \<le> vy aged_block \<and> blk_y aged_block < blk_y (advance (frame_dt sample_frame) aged_block)"
proof -
  have h: "list_all wf_input [sample_frame]"
    by (simp add: wf_sample_frames)
  have m: "aged_block \<in> set (falling (update_state sample_env sample_state sample_frame))"
    by (simp add: sample_falling)
  have t: "0 < tick_ms sample_frame"
    by (simp add: sample_frame_simps)
  from m have m': "aged_block \<in> set (falling (update_state sample_env sample_state sample_frame)
      @ spawned sample_env (update_state sample_env sample_state sample_frame) sample_frame)"
    by simp
  from blocks_only_fall [OF h sample_run wf_sample_frames(1) sample_second_frame_ok] m' t
  have "150 \<le> vy aged_block \<and> blk_y aged_block < blk_y (advance (frame_dt sample_frame) aged_block)"
    by blast
  with h sample_run wf_sample_frames(1) sample_second_frame_ok m t show ?thesis
    by blast
qed

subsection \<open>The bob offset\<close>

text \<open>
  Claim C7. Over the reals, the bob offset of line 178 has period \<open>1 / BOB_SPEED\<close>.
\<close>

theorem bob_periodic: "bob t = bob (t + 1 / BOB_SPEED)"
proof -
  have "2 * pi * BOB_SPEED * (t + 1 / BOB_SPEED) = 2 * pi * BOB_SPEED * t + 2 * pi"
    by (simp add: BOB_SPEED_def algebra_simps)
  then show ?thesis
    by (simp add: bob_def)
qed

subsection \<open>The exit state is terminal\<close>

text \<open>
  Claim C8. Once \<open>running\<close> is false it stays false: the rest of the event queue
  cannot set it again, nor can an iteration of the loop body. The loop entered with
  \<open>running\<close> false returns at once with the state unchanged, whatever frames would
  follow, and the loop whose current iteration ends with \<open>running\<close> false returns after
  that iteration.
\<close>

theorem exit_is_terminal:
  "poll_events s False evs = False \<and>
   (\<not> running st \<and> frame e st i = Inr st' \<longrightarrow> \<not> running st') \<and>
   (\<not> running st \<longrightarrow> main_loop e st is = Some (Inr st)) \<and>
   (running st \<and> frame e st i = Inr st' \<and> \<not> running st'
      \<longrightarrow> main_loop e st (i # is) = Some (Inr st'))"
proof -
  have a: "\<not> running st'" if "\<not> running st" "frame e st i = Inr st'"
  proof -
    from that(2) have "running st' = poll_events (start_mouse_pos e) (running st) (events i)"
      by (auto dest: frame_Inr simp: running_update_state)
    with that(1) show ?thesis
      by (simp add: poll_events_False)
  qed
  have b: "main_loop e st is = Some (Inr st)" if "\<not> running st"
    using that by (simp add: main_loop_def run_frames_stopped)
  have c: "main_loop e st (i # is) = Some (Inr st')"
    if "running st" "frame e st i = Inr st'" "\<not> running st'"
    using that by (simp add: main_loop_def run_frames_stopped)
  from a b c poll_events_False [of s evs] show ?thesis
    by blast
qed

text \<open>
  The start state with \<open>running\<close> cleared, and a frame with a key press from the start
  state.
\<close>

theorem exit_is_terminal_witness:
  "\<not> running stopped_state \<and>
   frame sample_env stopped_state sample_frame = Inr (update_state sample_env stopped_state sample_frame) \<and>
   \<not> running (update_state sample_env stopped_state sample_frame) \<and>
   main_loop sample_env stopped_state [sample_frame, sample_frame] = Some (Inr stopped_state) \<and>
   running sample_state \<and>
   frame sample_env sample_state key_frame = Inr (update_state sample_env sample_state key_frame) \<and>
   \<not> running (update_state sample_env sample_state key_frame) \<and>
   main_loop sample_env sample_state [key_frame, sample_frame] =
     Some (Inr (update_state sample_env sample_state key_frame))"
proof -
  have h1: "\<not> running stopped_state"
    by (simp add: stopped_state_simps)
  note a = exit_is_terminal [of "start_mouse_pos sample_env" "[]" stopped_state sample_env sample_frame
      "update_state sample_env stopped_state sample_frame" "[sample_frame, sample_frame]"]
  note b = exit_is_terminal [of "start_mouse_pos sample_env" "[]" sample_state sample_env key_frame
      "update_state sample_env sample_state key_frame" "[sample_frame]"]
  from a h1 stopped_frame_ok
  have c1: "\<not> running (update_state sample_env stopped_state sample_frame) \<and>
      main_loop sample_env stopped_state [sample_frame, sample_frame] = Some (Inr stopped_state)"
    by blast
  from b sample_state_simps(2) sample_frames_ok(3) key_frame_stops
  have c2: "main_loop sample_env sample_state [key_frame, sample_frame] =
     Some (Inr (update_state sample_env sample_state key_frame))"
    by blast
  from h1 stopped_frame_ok c1 sample_state_simps(2) sample_frames_ok(3) key_frame_stops c2
  show ?thesis by blast
qed

subsection \<open>The cursor is restored\<close>

text \<open>
  Claim C9 says that on every exit path the cursor is visible and the input not
  grabbed at the end. The two restoring calls stand in one \<open>try\<close> whose handler is
  \<open>pass\<close> (lines 212-216): in a run ended by a key press in which \<open>set_visible(True)\<close>
  raises, the handler swallows the raise, \<open>set_grab(False)\<close> is skipped, and the program
  ends with the cursor hidden and the input grabbed.
\<close>

theorem cursor_not_restored_counterexample:
  "main no_show_calls sample_platform sample_env sample_cloud_rnd [key_frame, sample_frame] =
     Some (Inr (update_state sample_env sample_state key_frame),
           \<lparr> cursor_visible = False, input_grab = True \<rparr>) \<and>
   \<not> cursor_visible \<lparr> cursor_visible = False, input_grab = True \<rparr> \<and>
   input_grab \<lparr> cursor_visible = False, input_grab = True \<rparr>"
proof -
  have "restore no_show_calls (hide_and_grab no_show_calls sample_platform)
      = \<lparr> cursor_visible = False, input_grab = True \<rparr>"
    by (simp add: restore_def hide_and_grab_def Let_def no_show_calls_def sample_platform_def)
  with sample_main_key [of no_show_calls] show ?thesis
    by simp
qed

text \<open>
  Claim C9, amended. However the loop ends, by \<open>running\<close> turning false or by a fault
  raised in an iteration, the \<open>finally\<close> block leaves the cursor visible and the input
  not grabbed, provided that the call showing the cursor returns and that the call
  releasing the grab returns or the grab was never taken.
\<close>

theorem cursor_restored:
  assumes "main pc p e ds is = Some (r, p')"
    and "show_ok pc"
    and "grab_off_ok pc \<or> \<not> grab_on_ok pc \<and> \<not> input_grab p"
  shows "cursor_visible p' \<and> \<not> input_grab p'"
proof -
  from assms(1) have "p' = restore pc (hide_and_grab pc p)"
    by (simp add: main_def Let_def split: option.splits)
  with assms(2,3) show ?thesis
    by (auto simp: restore_def hide_and_grab_def Let_def)
qed

text \<open>
  A run ended by a key press, a run ended by a fault, and a run on a platform without
  input grab.
\<close>

theorem cursor_restored_witness:
  "main sample_calls sample_platform sample_env sample_cloud_rnd [key_frame, sample_frame] =
     Some (Inr (update_state sample_env sample_state key_frame),
           restore sample_calls (hide_and_grab sample_calls sample_platform)) \<and>
   main sample_calls sample_platform sample_env sample_cloud_rnd [sample_frame, fault_frame] =
     Some (Inl PygameError, restore sample_calls (hide_and_grab sample_calls sample_platform)) \<and>
   main no_grab_calls sample_platform sample_env sample_cloud_rnd [sample_frame, fault_frame] =
     Some (Inl PygameError, restore no_grab_calls (hide_and_grab no_grab_calls sample_platform)) \<and>
   show_ok sample_calls \<and> grab_off_ok sample_calls \<and>
   show_ok no_grab_calls \<and> \<not> grab_on_ok no_grab_calls \<and> \<not> input_grab sample_platform \<and>
   \<not> cursor_visible (hide_and_grab sample_calls sample_platform) \<and>
   input_grab (hide_and_grab sample_calls sample_platform) \<and>
   cursor_visible (restore sample_calls (hide_and_grab sample_calls sample_platform)) \<and>
   \<not> input_grab (restore sample_calls (hide_and_grab sample_calls sample_platform)) \<and>
   cursor_visible (restore no_grab_calls (hide_and_grab no_grab_calls sample_platform)) \<and>
   \<not> input_grab (restore no_grab_calls (hide_and_grab no_grab_calls sample_platform))"
proof -
  have s: "show_ok sample_calls" "grab_off_ok sample_calls"
    by (simp_all add: sample_calls_def)
  have n: "show_ok no_grab_calls" "\<not> grab_on_ok no_grab_calls" "\<not> input_grab sample_platform"
    by (simp_all add: no_grab_calls_def sample_platform_def)
  have hidden: "\<not> cursor_visible (hide_and_grab sample_calls sample_platform)"
    "input_grab (hide_and_grab sample_calls sample_platform)"
    by (simp_all add: hide_and_grab_def sample_calls_def Let_def)
  from cursor_restored [OF sample_main_key [of sample_calls]] s
  have c1: "cursor_visible (restore sample_calls (hide_and_grab sample_calls sample_platform)) \<and>
      \<not> input_grab (restore sample_calls (hide_and_grab sample_calls sample_platform))"
    by blast
  from cursor_restored [OF sample_main_fault [of no_grab_calls]] n
  have c2: "cursor_visible (restore no_grab_calls (hide_and_grab no_grab_calls sample_platform)) \<and>
      \<not> input_grab (restore no_grab_calls (hide_and_grab no_grab_calls sample_platform))"
    by blast
  from sample_main_key [of sample_calls] sample_main_fault [of sample_calls]
    sample_main_fault [of no_grab_calls] s n hidden c1 c2
  show ?thesis by blast
qed

subsection \<open>The lifetime fraction\<close>

text \<open>
  Claim C10. A block is created with remaining lifetime equal to its total lifetime,
  which is at least 2.5; the update never changes the total lifetime and never raises
  the remaining one. So no run raises \<open>ZeroDivisionError\<close>, and every block of the list
  that the renderer sees has total lifetime at least 2.5, remaining lifetime at most
  the total, and lifetime fraction in \<open>(0, 1]\<close>.
\<close>

theorem lifetime_fraction:
  assumes "list_all wf_input is"
  shows "(wf_spawn d \<longrightarrow>
            life (new_block e d) = max_life (new_block e d) \<and> 5 / 2 \<le> max_life (new_block e d)) \<and>
         max_life (advance dt blk) = max_life blk \<and>
         (0 \<le> dt \<longrightarrow> life (advance dt blk) \<le> life blk) \<and>
         run_frames e (init_state e ds) is \<noteq> Inl ZeroDivisionError \<and>
         (run_frames e (init_state e ds) is = Inr st \<longrightarrow>
            (\<forall>b \<in> set (falling st).
               5 / 2 \<le> max_life b \<and> life b \<le> max_life b \<and>
               0 < life b / max_life b \<and> life b / max_life b \<le> 1 \<and>
               particle_alpha b \<noteq> Inl ZeroDivisionError))"
proof -
  have a: "wf_spawn d \<Longrightarrow>
      life (new_block e d) = max_life (new_block e d) \<and> 5 / 2 \<le> max_life (new_block e d)"
    by (simp add: new_block_def Let_def wf_spawn_def unit_draw_def)
  have b: "max_life (advance dt blk) = max_life blk" "0 \<le> dt \<Longrightarrow> life (advance dt blk) \<le> life blk"
    by (simp_all add: advance_def)
  have c: "run_frames e (init_state e ds) is \<noteq> Inl ZeroDivisionError"
    using assms by (intro run_frames_no_zero_division) (simp_all add: init_state_def)
  have d: "\<forall>b \<in> set (falling st).
               5 / 2 \<le> max_life b \<and> life b \<le> max_life b \<and>
               0 < life b / max_life b \<and> life b / max_life b \<le> 1 \<and>
               particle_alpha b \<noteq> Inl ZeroDivisionError"
    if "run_frames e (init_state e ds) is = Inr st"
  proof
    fix b assume "b \<in> set (falling st)"
    moreover from assms that have "list_all active_ok (falling st)"
      by (rule active_ok_reachable)
    ultimately have "active_ok b" by (simp add: list_all_iff)
    then show "5 / 2 \<le> max_life b \<and> life b \<le> max_life b \<and>
               0 < life b / max_life b \<and> life b / max_life b \<le> 1 \<and>
               particle_alpha b \<noteq> Inl ZeroDivisionError"
      by (rule active_fraction)
  qed
  from a b c d show ?thesis by blast
qed

text \<open>
  The concrete run after its first frame, with one block in the list.
\<close>

theorem lifetime_fraction_witness:
  "list_all wf_input [sample_frame] \<and> wf_spawn sample_spawn \<and>
   run_frames sample_env (init_state sample_env sample_cloud_rnd) [sample_frame] =
     Inr (update_state sample_env sample_state sample_frame) \<and>
   aged_block \<in> set (falling (update_state sample_env sample_state sample_frame)) \<and>
   life (new_block sample_env sample_spawn) = max_life (new_block sample_env sample_spawn) \<and>
   5 / 2 \<le> max_life aged_block \<and> life aged_block \<le> max_life aged_block \<and>
   0 < life aged_block / max_life aged_block \<and> life aged_block / max_life aged_block \<le> 1 \<and>
   particle_alpha aged_block \<noteq> Inl ZeroDivisionError"
proof -
  have h: "list_all wf_input [sample_frame]"
    by (simp add: wf_sample_frames)
  have m: "aged_block \<in> set (falling (update_state sample_env sample_state sample_frame))"
    by (simp add: sample_falling)
  note inst = lifetime_fraction [OF h, of sample_spawn sample_env "1 / 10" fresh_block
      sample_cloud_rnd "update_state sample_env sample_state sample_frame"]
  from inst wf_sample_spawn
  have a: "life (new_block sample_env sample_spawn) = max_life (new_block sample_env sample_spawn)"
    by blast
  from inst sample_run m
  have b: "5 / 2 \<le> max_life aged_block \<and> life aged_block \<le> max_life aged_block \<and>
      0 < life aged_block / max_life aged_block \<and> life aged_block / max_life aged_block \<le> 1 \<and>
      particle_alpha aged_block \<noteq> Inl ZeroDivisionError"
    by blast
  from h wf_sample_spawn sample_run m a b show ?thesis
    by blast
qed

end
